theory Spec2Isabelle
  imports
    Complex_Main
    "HOL-Library.Sublist"
    "HOL-Library.Log_Nat"
    "HOL-Library.Code_Target_Numeral"
begin

section \<open>Decimal values\<close>

text \<open>
  The service computes with \<^verbatim>\<open>Decimal\<close> objects of decimal.js. A \<^verbatim>\<open>Decimal\<close> is a
  finite decimal number, one of the two infinities, or NaN. The \<^verbatim>\<open>amount: number\<close>
  argument of an operation is used only as \<^verbatim>\<open>new Decimal(amount)\<close>, so the model
  takes that value as the argument: a JavaScript number may be negative, infinite or
  NaN, and so may the amount here.

  The library rounds the result of every \<^verbatim>\<open>plus\<close> and \<^verbatim>\<open>minus\<close> to its working
  precision, 20 significant digits unless configured otherwise (the service configures
  nothing), and rounds to the nearest such value, a tie going away from zero.
\<close>

definition precision :: nat where
  "precision = 20"

text \<open>
  The decimal exponent of the leading digit of a number other than zero:
  \<open>10 powi exponent x \<le> \<bar>x\<bar> < 10 powi (exponent x + 1)\<close>.
\<close>

definition exponent :: "rat \<Rightarrow> int" where
  "exponent x =
     (if 1 \<le> \<bar>x\<bar> then int (floorlog 10 (nat \<lfloor>\<bar>x\<bar>\<rfloor>)) - 1
      else - int (floorlog 10 (nat \<lceil>1 / \<bar>x\<bar>\<rceil> - 1)))"

text \<open>
  The leading \<open>sd\<close> digits of \<open>x\<close> as an integer, rounded half up in magnitude, and the
  rounding of \<open>x\<close> to \<open>sd\<close> significant digits (the library's \<^verbatim>\<open>finalise\<close> in its
  rounding mode \<^verbatim>\<open>ROUND_HALF_UP\<close>).
\<close>

definition digitsOf :: "nat \<Rightarrow> rat \<Rightarrow> int" where
  "digitsOf sd x = \<lfloor>\<bar>x\<bar> * 10 powi (int sd - 1 - exponent x) + 1 / 2\<rfloor>"

definition finalise :: "nat \<Rightarrow> rat \<Rightarrow> rat" where
  "finalise sd x =
     (if x = 0 then 0
      else sgn x * of_int (digitsOf sd x) * 10 powi (exponent x - (int sd - 1)))"

text \<open>
  The finite values are the numbers of at most 20 significant digits: what the arithmetic
  produces, and what it starts from, for a JavaScript number has at most 17 significant
  digits and the wallet columns hold \<^verbatim>\<open>0.00\<close> or a result that the service stored.
  The sign of zero and the limits of the library's exponent are left out.
\<close>

typedef finiteDecimal = "range (finalise precision)"
  by (rule exI) (rule rangeI)

setup_lifting type_definition_finiteDecimal

lift_definition toDecimal :: "rat \<Rightarrow> finiteDecimal" is "finalise precision"
  by (rule rangeI)

lift_definition valueOf :: "finiteDecimal \<Rightarrow> rat" is "\<lambda>x. x" .

instantiation finiteDecimal :: equal
begin

definition equal_finiteDecimal :: "finiteDecimal \<Rightarrow> finiteDecimal \<Rightarrow> bool" where
  "equal_finiteDecimal a b \<longleftrightarrow> valueOf a = valueOf b"

instance
  by standard (simp add: equal_finiteDecimal_def, transfer, simp)

end

datatype decimal = Finite finiteDecimal | PInf | NInf | NaN

text \<open>
  The Decimal of a number that is written out: \<open>Fin 100\<close>, \<open>Fin (- 5)\<close>. (A number of
  more than 20 significant digits, which none of the values above is, would be rounded.)
\<close>

definition Fin :: "rat \<Rightarrow> decimal" where
  "Fin x = Finite (toDecimal x)"

text \<open>The number that a finite Decimal stands for.\<close>

fun toRat :: "decimal \<Rightarrow> rat option" where
  "toRat (Finite a) = Some (valueOf a)"
| "toRat PInf = None"
| "toRat NInf = None"
| "toRat NaN = None"

text \<open>
  \<^verbatim>\<open>x.plus(y)\<close>: NaN if either is NaN or if the two are infinities of opposite sign;
  on finite values the sum, rounded to the working precision.
\<close>

fun plusD :: "decimal \<Rightarrow> decimal \<Rightarrow> decimal" where
  "plusD NaN y = NaN"
| "plusD x NaN = NaN"
| "plusD PInf NInf = NaN"
| "plusD NInf PInf = NaN"
| "plusD PInf y = PInf"
| "plusD NInf y = NInf"
| "plusD (Finite a) PInf = PInf"
| "plusD (Finite a) NInf = NInf"
| "plusD (Finite a) (Finite b) = Finite (toDecimal (valueOf a + valueOf b))"

text \<open>
  \<^verbatim>\<open>x.minus(y)\<close>: NaN if either is NaN or if the two are infinities of the same sign;
  on finite values the difference, rounded to the working precision.
\<close>

fun minusD :: "decimal \<Rightarrow> decimal \<Rightarrow> decimal" where
  "minusD NaN y = NaN"
| "minusD x NaN = NaN"
| "minusD PInf PInf = NaN"
| "minusD NInf NInf = NaN"
| "minusD PInf y = PInf"
| "minusD NInf y = NInf"
| "minusD (Finite a) PInf = NInf"
| "minusD (Finite a) NInf = PInf"
| "minusD (Finite a) (Finite b) = Finite (toDecimal (valueOf a - valueOf b))"

text \<open>\<^verbatim>\<open>x.lessThan(y)\<close>: the comparison is false whenever an operand is NaN.\<close>

fun lessThanD :: "decimal \<Rightarrow> decimal \<Rightarrow> bool" where
  "lessThanD NaN y = False"
| "lessThanD x NaN = False"
| "lessThanD PInf y = False"
| "lessThanD x NInf = False"
| "lessThanD NInf y = True"
| "lessThanD (Finite a) PInf = True"
| "lessThanD (Finite a) (Finite b) = (valueOf a < valueOf b)"


section \<open>The two tables\<close>

text \<open>A table is the list of its rows in insertion order.\<close>

text \<open>
  Modelled from the spec: the declaration of the table \<^verbatim>\<open>treasuryWallets\<close> (in the schema
  module) is missing. The wallet record is "one row per admin, holding balance, total
  deposited, total used, total earned, status"; \<open>updatedAt\<close> is the one further column
  that the service writes.
\<close>

record wallet =
  adminId :: string
  balance :: decimal
  totalDeposited :: decimal
  totalUsed :: decimal
  totalEarned :: decimal
  status :: string
  updatedAt :: nat

text \<open>
  Modelled from the spec: the declaration of the table \<^verbatim>\<open>treasuryWalletTransactions\<close> is
  missing. The transaction record is an "append-only log entry (type:
  deposit/debit/credit/settlement; amount; before/after balance; status; optional links to
  a challenge/match)"; the remaining columns are those that the service writes (admin,
  description, reference) or sorts by (\<open>createdAt\<close>).
\<close>

record transaction =
  txAdminId :: string
  txType :: string
  txAmount :: decimal
  txDescription :: string
  txReference :: "string option"
  relatedChallengeId :: "int option"
  relatedMatchId :: "int option"
  txStatus :: string
  balanceBefore :: decimal
  balanceAfter :: decimal
  createdAt :: nat

record db =
  treasuryWallets :: "wallet list"
  treasuryWalletTransactions :: "transaction list"

text \<open>
  What a call takes from its surroundings: the clock read by \<^verbatim>\<open>new Date()\<close> (and by
  the timestamp defaults of the tables), and the default of the wallet's status column,
  which the service never sets and whose declaration is missing with the tables.
\<close>

record env =
  now :: nat
  defaultStatus :: string

datatype error = WalletNotFound | InsufficientBalance decimal decimal

definition emptyDb :: db where
  "emptyDb = \<lparr>treasuryWallets = [], treasuryWalletTransactions = []\<rparr>"


section \<open>Database statements\<close>

text \<open>\<^verbatim>\<open>db.update(treasuryWallets).set(..).where(eq(adminId, aid))\<close>: every matching row.\<close>

definition updateWallets :: "string \<Rightarrow> (wallet \<Rightarrow> wallet) \<Rightarrow> db \<Rightarrow> db" where
  "updateWallets aid f d =
     d\<lparr>treasuryWallets := map (\<lambda>w. if adminId w = aid then f w else w) (treasuryWallets d)\<rparr>"

definition insertWallet :: "wallet \<Rightarrow> db \<Rightarrow> db" where
  "insertWallet w d = d\<lparr>treasuryWallets := treasuryWallets d @ [w]\<rparr>"

definition insertTransaction :: "transaction \<Rightarrow> db \<Rightarrow> db" where
  "insertTransaction t d = d\<lparr>treasuryWalletTransactions := treasuryWalletTransactions d @ [t]\<rparr>"


section \<open>The service\<close>

text \<open>
  \<^verbatim>\<open>select .. where adminId = aid limit 1\<close>: a matching row, or null. The query gives
  no order; the model takes the row inserted first.
\<close>

definition getTreasuryWallet :: "db \<Rightarrow> string \<Rightarrow> wallet option" where
  "getTreasuryWallet d aid = find (\<lambda>w. adminId w = aid) (treasuryWallets d)"

definition newWallet :: "env \<Rightarrow> string \<Rightarrow> wallet" where
  "newWallet e aid =
     \<lparr>adminId = aid, balance = Fin 0, totalDeposited = Fin 0, totalUsed = Fin 0,
      totalEarned = Fin 0, status = defaultStatus e, updatedAt = now e\<rparr>"

definition createOrGetTreasuryWallet :: "env \<Rightarrow> string \<Rightarrow> db \<Rightarrow> wallet \<times> db" where
  "createOrGetTreasuryWallet e aid d =
     (case getTreasuryWallet d aid of
        Some existing \<Rightarrow> (existing, d)
      | None \<Rightarrow> (newWallet e aid, insertWallet (newWallet e aid) d))"

text \<open>
  Each ledger operation first reads the wallet and then, in statements of their own,
  updates the wallet row and inserts the transaction row. The part after the read is
  a function of the wallet that was read.
\<close>

definition depositApply ::
  "env \<Rightarrow> string \<Rightarrow> decimal \<Rightarrow> string \<Rightarrow> wallet \<Rightarrow> db \<Rightarrow> (error + decimal) \<times> db" where
  "depositApply e aid amount paystackReference wallet d =
     (let newBalance = plusD (balance wallet) amount;
          newDeposited = plusD (totalDeposited wallet) amount;
          d2 = updateWallets aid
                 (\<lambda>w. w\<lparr>balance := newBalance, totalDeposited := newDeposited,
                        updatedAt := now e\<rparr>) d;
          d3 = insertTransaction
                 \<lparr>txAdminId = aid, txType = ''deposit'', txAmount = amount,
                  txDescription = ''Deposited to Treasury wallet'',
                  txReference = Some paystackReference,
                  relatedChallengeId = None, relatedMatchId = None,
                  txStatus = ''completed'',
                  balanceBefore = balance wallet, balanceAfter = newBalance,
                  createdAt = now e\<rparr> d2
      in (Inr newBalance, d3))"

definition depositToTreasuryWallet ::
  "env \<Rightarrow> string \<Rightarrow> decimal \<Rightarrow> string \<Rightarrow> db \<Rightarrow> (error + decimal) \<times> db" where
  "depositToTreasuryWallet e aid amount paystackReference d =
     (case createOrGetTreasuryWallet e aid d of
        (wallet, d1) \<Rightarrow> depositApply e aid amount paystackReference wallet d1)"

definition debitApply ::
  "env \<Rightarrow> string \<Rightarrow> decimal \<Rightarrow> string \<Rightarrow> int option \<Rightarrow> wallet \<Rightarrow> db
     \<Rightarrow> (error + decimal) \<times> db" where
  "debitApply e aid amount description challengeId wallet d =
     (let walletBalance = balance wallet in
      if lessThanD walletBalance amount
      then (Inl (InsufficientBalance walletBalance amount), d)
      else
        (let newBalance = minusD walletBalance amount;
             newUsed = plusD (totalUsed wallet) amount;
             d2 = updateWallets aid
                    (\<lambda>w. w\<lparr>balance := newBalance, totalUsed := newUsed,
                           updatedAt := now e\<rparr>) d;
             d3 = insertTransaction
                    \<lparr>txAdminId = aid, txType = ''debit'', txAmount = amount,
                     txDescription = description, txReference = None,
                     relatedChallengeId = challengeId, relatedMatchId = None,
                     txStatus = ''completed'',
                     balanceBefore = walletBalance, balanceAfter = newBalance,
                     createdAt = now e\<rparr> d2
         in (Inr newBalance, d3)))"

definition debitTreasuryWallet ::
  "env \<Rightarrow> string \<Rightarrow> decimal \<Rightarrow> string \<Rightarrow> int option \<Rightarrow> db \<Rightarrow> (error + decimal) \<times> db" where
  "debitTreasuryWallet e aid amount description challengeId d =
     (case getTreasuryWallet d aid of
        None \<Rightarrow> (Inl WalletNotFound, d)
      | Some wallet \<Rightarrow> debitApply e aid amount description challengeId wallet d)"

definition creditApply ::
  "env \<Rightarrow> string \<Rightarrow> decimal \<Rightarrow> string \<Rightarrow> int option \<Rightarrow> int option \<Rightarrow> wallet \<Rightarrow> db
     \<Rightarrow> (error + decimal) \<times> db" where
  "creditApply e aid amount description challengeId matchId wallet d =
     (let newBalance = plusD (balance wallet) amount;
          newEarned = plusD (totalEarned wallet) amount;
          d2 = updateWallets aid
                 (\<lambda>w. w\<lparr>balance := newBalance, totalEarned := newEarned,
                        updatedAt := now e\<rparr>) d;
          d3 = insertTransaction
                 \<lparr>txAdminId = aid, txType = ''credit'', txAmount = amount,
                  txDescription = description, txReference = None,
                  relatedChallengeId = challengeId, relatedMatchId = matchId,
                  txStatus = ''completed'',
                  balanceBefore = balance wallet, balanceAfter = newBalance,
                  createdAt = now e\<rparr> d2
      in (Inr newBalance, d3))"

definition creditTreasuryWallet ::
  "env \<Rightarrow> string \<Rightarrow> decimal \<Rightarrow> string \<Rightarrow> int option \<Rightarrow> int option \<Rightarrow> db
     \<Rightarrow> (error + decimal) \<times> db" where
  "creditTreasuryWallet e aid amount description challengeId matchId d =
     (case getTreasuryWallet d aid of
        None \<Rightarrow> (Inl WalletNotFound, d)
      | Some wallet \<Rightarrow> creditApply e aid amount description challengeId matchId wallet d)"

text \<open>
  The transactions of an admin, newest first, at most \<open>limit\<close> rows. The query does not
  fix the order of rows with equal timestamps; here the later insertion comes first.
\<close>

definition getTreasuryWalletTransactions :: "db \<Rightarrow> string \<Rightarrow> nat \<Rightarrow> transaction list" where
  "getTreasuryWalletTransactions d aid limit =
     take limit (rev (sort_key createdAt
       (filter (\<lambda>t. txAdminId t = aid) (treasuryWalletTransactions d))))"

record summary =
  sumBalance :: decimal
  sumTotalDeposited :: decimal
  sumTotalUsed :: decimal
  sumTotalEarned :: decimal
  netPnL :: decimal
  sumStatus :: string

definition getTreasuryWalletSummary :: "db \<Rightarrow> string \<Rightarrow> summary option" where
  "getTreasuryWalletSummary d aid =
     (case getTreasuryWallet d aid of
        None \<Rightarrow> None
      | Some wallet \<Rightarrow>
          Some \<lparr>sumBalance = balance wallet,
                sumTotalDeposited = totalDeposited wallet,
                sumTotalUsed = totalUsed wallet,
                sumTotalEarned = totalEarned wallet,
                netPnL = minusD (totalEarned wallet) (totalUsed wallet),
                sumStatus = status wallet\<rparr>)"


section \<open>Sequences of service calls\<close>

datatype call =
    GetTreasuryWallet string
  | CreateOrGetTreasuryWallet string
  | DepositToTreasuryWallet string decimal string
  | DebitTreasuryWallet string decimal string "int option"
  | CreditTreasuryWallet string decimal string "int option" "int option"
  | GetTreasuryWalletTransactions string nat
  | GetTreasuryWalletSummary string

text \<open>The database after a call; a call that throws leaves it as it was at the throw.\<close>

fun exec :: "env \<Rightarrow> call \<Rightarrow> db \<Rightarrow> db" where
  "exec e (GetTreasuryWallet aid) d = d"
| "exec e (CreateOrGetTreasuryWallet aid) d = snd (createOrGetTreasuryWallet e aid d)"
| "exec e (DepositToTreasuryWallet aid amount r) d = snd (depositToTreasuryWallet e aid amount r d)"
| "exec e (DebitTreasuryWallet aid amount descr ch) d =
     snd (debitTreasuryWallet e aid amount descr ch d)"
| "exec e (CreditTreasuryWallet aid amount descr ch m) d =
     snd (creditTreasuryWallet e aid amount descr ch m d)"
| "exec e (GetTreasuryWalletTransactions aid limit) d = d"
| "exec e (GetTreasuryWalletSummary aid) d = d"

fun run :: "(env \<times> call) list \<Rightarrow> db \<Rightarrow> db" where
  "run [] d = d"
| "run ((e, c) # cs) d = run cs (exec e c d)"


section \<open>Interleaved requests\<close>

text \<open>
  A ledger operation issues its statements one at a time: it awaits the read of the
  wallet, then the update of the wallet row, then the insert of the transaction row. No
  operation opens a database transaction or takes a lock, so between two statements of one
  request a statement of another request may run. (The lookup-or-create of a deposit is
  taken as one step here, although it is itself a read followed by an insert.)
\<close>

datatype request =
    DepositRequest env string decimal string
  | DebitRequest env string decimal string "int option"
  | CreditRequest env string decimal string "int option" "int option"

text \<open>A request carried out on its own, by the function of the service.\<close>

fun perform :: "request \<Rightarrow> db \<Rightarrow> (error + decimal) \<times> db" where
  "perform (DepositRequest e aid amount r) d = depositToTreasuryWallet e aid amount r d"
| "perform (DebitRequest e aid amount descr ch) d = debitTreasuryWallet e aid amount descr ch d"
| "perform (CreditRequest e aid amount descr ch m) d =
     creditTreasuryWallet e aid amount descr ch m d"

text \<open>
  How far a request has got: nothing done yet, the wallet read (and, for a debit, the
  balance checked, which takes no further statement), the wallet row updated, or
  returned or thrown.
\<close>

datatype progress =
    Started request
  | HasRead request wallet
  | HasUpdated request wallet
  | Finished "error + decimal"

text \<open>The next statement of a request, on the database as it is at that moment.\<close>

fun advance :: "progress \<Rightarrow> db \<Rightarrow> progress \<times> db" where
  "advance (Started (DepositRequest e aid amount r)) d =
     (case createOrGetTreasuryWallet e aid d of
        (wallet, d1) \<Rightarrow> (HasRead (DepositRequest e aid amount r) wallet, d1))"
| "advance (Started (DebitRequest e aid amount descr ch)) d =
     (case getTreasuryWallet d aid of
        None \<Rightarrow> (Finished (Inl WalletNotFound), d)
      | Some wallet \<Rightarrow>
          if lessThanD (balance wallet) amount
          then (Finished (Inl (InsufficientBalance (balance wallet) amount)), d)
          else (HasRead (DebitRequest e aid amount descr ch) wallet, d))"
| "advance (Started (CreditRequest e aid amount descr ch m)) d =
     (case getTreasuryWallet d aid of
        None \<Rightarrow> (Finished (Inl WalletNotFound), d)
      | Some wallet \<Rightarrow> (HasRead (CreditRequest e aid amount descr ch m) wallet, d))"
| "advance (HasRead (DepositRequest e aid amount r) wallet) d =
     (HasUpdated (DepositRequest e aid amount r) wallet,
      updateWallets aid
        (\<lambda>w. w\<lparr>balance := plusD (balance wallet) amount,
               totalDeposited := plusD (totalDeposited wallet) amount,
               updatedAt := now e\<rparr>) d)"
| "advance (HasRead (DebitRequest e aid amount descr ch) wallet) d =
     (HasUpdated (DebitRequest e aid amount descr ch) wallet,
      updateWallets aid
        (\<lambda>w. w\<lparr>balance := minusD (balance wallet) amount,
               totalUsed := plusD (totalUsed wallet) amount,
               updatedAt := now e\<rparr>) d)"
| "advance (HasRead (CreditRequest e aid amount descr ch m) wallet) d =
     (HasUpdated (CreditRequest e aid amount descr ch m) wallet,
      updateWallets aid
        (\<lambda>w. w\<lparr>balance := plusD (balance wallet) amount,
               totalEarned := plusD (totalEarned wallet) amount,
               updatedAt := now e\<rparr>) d)"
| "advance (HasUpdated (DepositRequest e aid amount r) wallet) d =
     (Finished (Inr (plusD (balance wallet) amount)),
      insertTransaction
        \<lparr>txAdminId = aid, txType = ''deposit'', txAmount = amount,
         txDescription = ''Deposited to Treasury wallet'', txReference = Some r,
         relatedChallengeId = None, relatedMatchId = None, txStatus = ''completed'',
         balanceBefore = balance wallet, balanceAfter = plusD (balance wallet) amount,
         createdAt = now e\<rparr> d)"
| "advance (HasUpdated (DebitRequest e aid amount descr ch) wallet) d =
     (Finished (Inr (minusD (balance wallet) amount)),
      insertTransaction
        \<lparr>txAdminId = aid, txType = ''debit'', txAmount = amount,
         txDescription = descr, txReference = None,
         relatedChallengeId = ch, relatedMatchId = None, txStatus = ''completed'',
         balanceBefore = balance wallet, balanceAfter = minusD (balance wallet) amount,
         createdAt = now e\<rparr> d)"
| "advance (HasUpdated (CreditRequest e aid amount descr ch m) wallet) d =
     (Finished (Inr (plusD (balance wallet) amount)),
      insertTransaction
        \<lparr>txAdminId = aid, txType = ''credit'', txAmount = amount,
         txDescription = descr, txReference = None,
         relatedChallengeId = ch, relatedMatchId = m, txStatus = ''completed'',
         balanceBefore = balance wallet, balanceAfter = plusD (balance wallet) amount,
         createdAt = now e\<rparr> d)"
| "advance (Finished res) d = (Finished res, d)"

text \<open>
  A schedule names, step by step, the request that runs its next statement; an index
  that names no request is skipped.
\<close>

fun runSchedule :: "nat list \<Rightarrow> progress list \<times> db \<Rightarrow> progress list \<times> db" where
  "runSchedule [] c = c"
| "runSchedule (i # sched) (ps, d) =
     (if i < length ps
      then (case advance (ps ! i) d of (p, d') \<Rightarrow> runSchedule sched (ps[i := p], d'))
      else runSchedule sched (ps, d))"


section \<open>Vocabulary of the properties\<close>

definition walletsOf :: "db \<Rightarrow> string \<Rightarrow> wallet list" where
  "walletsOf d a = filter (\<lambda>w. adminId w = a) (treasuryWallets d)"

text \<open>
  The ledger equation, between the numbers that the four fields stand for; it asks all
  four to be finite.
\<close>

definition ledgerInvariant :: "wallet \<Rightarrow> bool" where
  "ledgerInvariant w =
     (case (toRat (balance w), toRat (totalDeposited w), toRat (totalEarned w),
            toRat (totalUsed w)) of
        (Some b, Some dp, Some er, Some u) \<Rightarrow> b = dp + er - u
      | _ \<Rightarrow> False)"

text \<open>
  A sum or a difference of two finite decimals that the working precision holds without
  rounding.
\<close>

definition exactSum :: "decimal \<Rightarrow> decimal \<Rightarrow> bool" where
  "exactSum x y =
     (case (toRat x, toRat y) of
        (Some a, Some b) \<Rightarrow> finalise precision (a + b) = a + b
      | _ \<Rightarrow> False)"

definition exactDiff :: "decimal \<Rightarrow> decimal \<Rightarrow> bool" where
  "exactDiff x y =
     (case (toRat x, toRat y) of
        (Some a, Some b) \<Rightarrow> finalise precision (a - b) = a - b
      | _ \<Rightarrow> False)"

text \<open>
  A call rounds nothing on the wallet of admin \<open>a\<close>: it is no ledger operation of that
  admin, or it throws, or the amount is finite and the new balance and the new running
  total are an exact sum or difference.
\<close>

fun exactCall :: "string \<Rightarrow> env \<Rightarrow> call \<Rightarrow> db \<Rightarrow> bool" where
  "exactCall a e (DepositToTreasuryWallet aid amount r) d =
     (if aid = a
      then (case createOrGetTreasuryWallet e aid d of
              (wallet, d1) \<Rightarrow>
                exactSum (balance wallet) amount \<and> exactSum (totalDeposited wallet) amount)
      else True)"
| "exactCall a e (DebitTreasuryWallet aid amount descr ch) d =
     (if aid = a
      then (case getTreasuryWallet d aid of
              None \<Rightarrow> True
            | Some wallet \<Rightarrow>
                if lessThanD (balance wallet) amount then True
                else exactDiff (balance wallet) amount \<and> exactSum (totalUsed wallet) amount)
      else True)"
| "exactCall a e (CreditTreasuryWallet aid amount descr ch m) d =
     (if aid = a
      then (case getTreasuryWallet d aid of
              None \<Rightarrow> True
            | Some wallet \<Rightarrow>
                exactSum (balance wallet) amount \<and> exactSum (totalEarned wallet) amount)
      else True)"
| "exactCall a e (GetTreasuryWallet aid) d = True"
| "exactCall a e (CreateOrGetTreasuryWallet aid) d = True"
| "exactCall a e (GetTreasuryWalletTransactions aid limit) d = True"
| "exactCall a e (GetTreasuryWalletSummary aid) d = True"

fun exactRun :: "string \<Rightarrow> (env \<times> call) list \<Rightarrow> db \<Rightarrow> bool" where
  "exactRun a [] d = True"
| "exactRun a ((e, c) # cs) d = (exactCall a e c d \<and> exactRun a cs (exec e c d))"

text \<open>
  None of the three running totals of \<open>w'\<close> compares less than that of \<open>w\<close>. The
  comparison is that of the decimals: it is false when an operand is NaN.
\<close>

definition totalsNotSmaller :: "wallet \<Rightarrow> wallet \<Rightarrow> bool" where
  "totalsNotSmaller w w' \<longleftrightarrow>
     \<not> lessThanD (totalDeposited w') (totalDeposited w) \<and>
     \<not> lessThanD (totalUsed w') (totalUsed w) \<and>
     \<not> lessThanD (totalEarned w') (totalEarned w)"


section \<open>Example data\<close>

definition exEnv :: env where
  "exEnv = \<lparr>now = 1000, defaultStatus = ''active''\<rparr>"

definition exWallet :: wallet where
  "exWallet = \<lparr>adminId = ''admin'', balance = Fin 100, totalDeposited = Fin 100,
               totalUsed = Fin 0, totalEarned = Fin 0, status = ''active'', updatedAt = 0\<rparr>"

definition exDb :: db where
  "exDb = \<lparr>treasuryWallets = [exWallet], treasuryWalletTransactions = []\<rparr>"

definition exCalls :: "(env \<times> call) list" where
  "exCalls =
     [(exEnv, DepositToTreasuryWallet ''admin'' (Fin 100) ''ref-1''),
      (exEnv, DebitTreasuryWallet ''admin'' (Fin 30) ''stake'' (Some 1)),
      (exEnv, CreditTreasuryWallet ''admin'' (Fin 5) ''won'' (Some 1) (Some 2)),
      (exEnv, DepositToTreasuryWallet ''bob'' (Fin 7) ''ref-2'')]"

text \<open>A wallet that has been used: 100 deposited, 30 used, 5 earned.\<close>

definition usedWallet :: wallet where
  "usedWallet = \<lparr>adminId = ''admin'', balance = Fin 75, totalDeposited = Fin 100,
                 totalUsed = Fin 30, totalEarned = Fin 5, status = ''active'', updatedAt = 0\<rparr>"

definition usedDb :: db where
  "usedDb = \<lparr>treasuryWallets = [usedWallet], treasuryWalletTransactions = []\<rparr>"

text \<open>
  Amounts on which the rounding shows: 1234567.89 and 3.3000000000000003 (the JavaScript
  number \<^verbatim>\<open>1.1 + 2.2\<close>), whose sum and difference have 23 significant digits. The
  wallet is what a deposit and a debit of 3.3000000000000003 and a credit of 1234567.89
  leave.
\<close>

definition fineWallet :: wallet where
  "fineWallet =
     \<lparr>adminId = ''admin'', balance = Fin (123456789 / 100),
      totalDeposited = Fin (33000000000000003 / 10000000000000000),
      totalUsed = Fin (33000000000000003 / 10000000000000000),
      totalEarned = Fin (123456789 / 100), status = ''active'', updatedAt = 0\<rparr>"

definition fineDb :: db where
  "fineDb = \<lparr>treasuryWallets = [fineWallet], treasuryWalletTransactions = []\<rparr>"

text \<open>A deposit of 100000000000000000000 followed by two credits of 6.\<close>

definition bigCalls :: "(env \<times> call) list" where
  "bigCalls =
     [(exEnv, DepositToTreasuryWallet ''admin'' (Fin 100000000000000000000) ''ref-1''),
      (exEnv, CreditTreasuryWallet ''admin'' (Fin 6) ''won'' None None),
      (exEnv, CreditTreasuryWallet ''admin'' (Fin 6) ''won'' None None)]"


section \<open>Facts about rounding\<close>

subsection \<open>The exponent\<close>

lemma exponent_ge1:
  assumes "1 \<le> \<bar>x\<bar>"
  shows "10 powi exponent x \<le> \<bar>x\<bar> \<and> \<bar>x\<bar> < 10 powi (exponent x + 1)"
proof -
  define m where "m = nat \<lfloor>\<bar>x\<bar>\<rfloor>"
  define D where "D = floorlog 10 m"
  have m0: "0 < m" using assms by (simp add: m_def)
  from floorlog_bounds [OF m0, of 10]
  have b: "10 ^ (D - 1) \<le> m" "m < 10 ^ D" by (simp_all add: D_def)
  have D0: "0 < D" using m0 by (simp add: D_def floorlog_def)
  have e: "exponent x = int D - 1" using assms by (simp add: exponent_def D_def m_def)
  have mx: "of_nat m \<le> \<bar>x\<bar>" "\<bar>x\<bar> < of_nat m + 1"
    using assms by (simp_all add: m_def) linarith+
  have "(10::rat) powi (int D - 1) = 10 ^ (D - 1)"
    using D0 by (simp add: power_int_def nat_diff_distrib')
  also have "\<dots> = of_nat (10 ^ (D - 1))" by simp
  also have "\<dots> \<le> of_nat m"
    using b(1) by (rule of_nat_mono)
  finally have "(10::rat) powi (int D - 1) \<le> of_nat m" .
  with mx(1) e have 1: "10 powi exponent x \<le> \<bar>x\<bar>" by simp
  have "Suc m \<le> 10 ^ D" using b(2) by simp
  then have "(of_nat (Suc m) :: rat) \<le> of_nat (10 ^ D)" by (rule of_nat_mono)
  then have 3: "of_nat m + 1 \<le> (10::rat) ^ D" by simp
  have "exponent x + 1 = int D" using e by simp
  then have "(10::rat) powi (exponent x + 1) = 10 ^ D" by simp
  with 3 mx(2) have 2: "\<bar>x\<bar> < 10 powi (exponent x + 1)" by linarith
  from 1 2 show ?thesis ..
qed

lemma exponent_lt1:
  assumes "x \<noteq> 0" "\<bar>x\<bar> < 1"
  shows "10 powi exponent x \<le> \<bar>x\<bar> \<and> \<bar>x\<bar> < 10 powi (exponent x + 1)"
proof -
  define y where "y = 1 / \<bar>x\<bar>"
  define n where "n = nat \<lceil>y\<rceil>"
  define k where "k = floorlog 10 (n - 1)"
  have x0: "0 < \<bar>x\<bar>" using assms by simp
  have y1: "1 < y" using assms x0 by (simp add: y_def)
  then have c2: "2 \<le> \<lceil>y\<rceil>" by linarith
  then have n2: "2 \<le> n" unfolding n_def by linarith
  then have n0: "0 < n - 1" by simp
  from floorlog_bounds [OF n0, of 10]
  have b: "10 ^ (k - 1) \<le> n - 1" "n - 1 < 10 ^ k" by (simp_all add: k_def)
  have k0: "0 < k" using n0 by (simp add: k_def floorlog_def)
  have e: "exponent x = - int k"
    using assms by (simp add: exponent_def k_def n_def y_def)
  have nn: "(of_nat n :: rat) = of_int \<lceil>y\<rceil>"
    using c2 by (simp add: n_def)
  have yn: "y \<le> of_nat n" "of_nat n - 1 < y"
    unfolding nn by linarith+
  have "n \<le> 10 ^ k" using b(2) by simp
  then have "(of_nat n :: rat) \<le> of_nat (10 ^ k)" by (rule of_nat_mono)
  also have "(of_nat (10 ^ k) :: rat) = 10 ^ k" by simp
  finally have nk: "(of_nat n :: rat) \<le> 10 ^ k" .
  from yn(1) nk have yk: "y \<le> 10 ^ k" by (rule order_trans)
  have "(10::rat) ^ (k - 1) = of_nat (10 ^ (k - 1))" by simp
  also have "\<dots> \<le> of_nat (n - 1)" using b(1) by (rule of_nat_mono)
  also have "(of_nat (n - 1) :: rat) = of_nat n - 1" using n2 by simp
  finally have nk': "(10::rat) ^ (k - 1) \<le> of_nat n - 1" .
  from nk' yn(2) have yk': "10 ^ (k - 1) < y" by (rule le_less_trans)
  have p: "(10::rat) powi (- int k) = 1 / 10 ^ k"
    by (simp add: power_int_minus_divide)
  have "1 / 10 ^ k \<le> 1 / y"
    using yk y1 by (intro divide_left_mono) simp_all
  then have 1: "10 powi exponent x \<le> \<bar>x\<bar>" using e p x0 by (simp add: y_def)
  have q: "(10::rat) powi (- int k + 1) = 1 / 10 ^ (k - 1)"
  proof -
    have "- int k + 1 = - int (k - 1)" using k0 by simp
    then show ?thesis by (simp only: power_int_minus_divide power_int_of_nat)
  qed
  have "1 / y < 1 / 10 ^ (k - 1)"
    using yk' y1 by (intro divide_strict_left_mono mult_pos_pos) simp_all
  then have 2: "\<bar>x\<bar> < 10 powi (exponent x + 1)" using e q x0 by (simp add: y_def)
  from 1 2 show ?thesis ..
qed

lemma exponent_bounds:
  assumes "x \<noteq> 0"
  shows "10 powi exponent x \<le> \<bar>x\<bar>" and "\<bar>x\<bar> < 10 powi (exponent x + 1)"
  using exponent_ge1 [of x] exponent_lt1 [of x] assms by (cases "1 \<le> \<bar>x\<bar>"; simp)+

lemma powi_less_D: "(10::rat) powi a < 10 powi b \<Longrightarrow> a < b"
proof (rule ccontr)
  assume l: "(10::rat) powi a < 10 powi b" and "\<not> a < b"
  then have "b \<le> a" by simp
  then have "(10::rat) powi b \<le> 10 powi a" by (rule power_int_increasing) simp
  with l show False by simp
qed

lemma exponent_unique:
  assumes "10 powi k \<le> \<bar>x\<bar>" "\<bar>x\<bar> < 10 powi (k + 1)"
  shows "exponent x = k"
proof -
  have "(0::rat) < 10 powi k" by simp
  with assms(1) have "0 < \<bar>x\<bar>" by linarith
  then have x0: "x \<noteq> 0" by simp
  from exponent_bounds [OF x0] assms
  have "(10::rat) powi k < 10 powi (exponent x + 1)" "(10::rat) powi exponent x < 10 powi (k + 1)"
    by linarith+
  then have "k < exponent x + 1" "exponent x < k + 1"
    using powi_less_D by blast+
  then show ?thesis by simp
qed

subsection \<open>Rounding to significant digits\<close>

lemma powi10_add: "(10::rat) powi (a + b) = 10 powi a * 10 powi b"
  by (simp add: power_int_add)

lemma powi10_pos: "(0::rat) < 10 powi a"
  by (simp add: zero_less_power_int)

lemma powi10_nat: "0 < sd \<Longrightarrow> (10::rat) powi (int sd - 1) = of_int (10 ^ (sd - 1))"
  by (simp add: power_int_def nat_diff_distrib')

lemma powi10_nat': "(10::rat) powi (int sd - 1 + 1) = of_int (10 ^ sd)"
  by simp

lemma finalise_digitsOf:
  "x \<noteq> 0 \<Longrightarrow> finalise sd x = sgn x * of_int (digitsOf sd x) * 10 powi (exponent x - (int sd - 1))"
  by (simp add: finalise_def)

lemma scaled_bounds:
  assumes "x \<noteq> 0"
  shows "10 powi p \<le> \<bar>x\<bar> * 10 powi (p - exponent x)"
    and "\<bar>x\<bar> * 10 powi (p - exponent x) < 10 powi (p + 1)"
proof -
  have a: "(10::rat) powi p = 10 powi exponent x * 10 powi (p - exponent x)"
    by (simp flip: powi10_add)
  have "p + 1 = (exponent x + 1) + (p - exponent x)" by simp
  then have "(10::rat) powi (p + 1) = 10 powi ((exponent x + 1) + (p - exponent x))"
    by (rule arg_cong)
  then have b: "(10::rat) powi (p + 1) = 10 powi (exponent x + 1) * 10 powi (p - exponent x)"
    by (simp only: powi10_add)
  show "10 powi p \<le> \<bar>x\<bar> * 10 powi (p - exponent x)"
    unfolding a using exponent_bounds(1) [OF assms] by (intro mult_right_mono) simp_all
  show "\<bar>x\<bar> * 10 powi (p - exponent x) < 10 powi (p + 1)"
    unfolding b using exponent_bounds(2) [OF assms] by (intro mult_strict_right_mono) simp_all
qed

lemma digitsOf_bounds:
  assumes "x \<noteq> 0" "0 < sd"
  shows "10 ^ (sd - 1) \<le> digitsOf sd x" and "digitsOf sd x \<le> 10 ^ sd"
proof -
  let ?s = "\<bar>x\<bar> * 10 powi (int sd - 1 - exponent x)"
  from scaled_bounds [OF assms(1), of "int sd - 1"]
  have lo: "of_int (10 ^ (sd - 1)) \<le> ?s" and hi: "?s < of_int (10 ^ sd)"
    using powi10_nat [OF assms(2)] powi10_nat' [of sd] by simp_all
  from lo have "of_int (10 ^ (sd - 1)) \<le> ?s + 1 / 2" by linarith
  then show "10 ^ (sd - 1) \<le> digitsOf sd x"
    unfolding digitsOf_def by (simp only: le_floor_iff)
  from hi have "?s + 1 / 2 < of_int (10 ^ sd + 1)" by simp
  then have "\<lfloor>?s + 1 / 2\<rfloor> < 10 ^ sd + 1" by (simp only: floor_less_iff)
  then show "digitsOf sd x \<le> 10 ^ sd" unfolding digitsOf_def by simp
qed

lemma digitsOf_pos: "x \<noteq> 0 \<Longrightarrow> 0 < sd \<Longrightarrow> 0 < digitsOf sd x"
proof -
  assume "x \<noteq> 0" "0 < sd"
  from digitsOf_bounds(1) [OF this] have "(10::int) ^ (sd - 1) \<le> digitsOf sd x" .
  moreover have "(0::int) < 10 ^ (sd - 1)" by simp
  ultimately show ?thesis by linarith
qed

lemma finalise_abs:
  assumes "x \<noteq> 0" "0 < sd"
  shows "\<bar>finalise sd x\<bar> = of_int (digitsOf sd x) * 10 powi (exponent x - (int sd - 1))"
  using digitsOf_pos [OF assms] assms(1)
  by (simp add: finalise_digitsOf abs_mult)

lemma exponent_uminus [simp]: "exponent (- x) = exponent x"
  by (simp add: exponent_def)

lemma finalise_uminus: "finalise sd (- x) = - finalise sd x"
  by (simp add: finalise_def digitsOf_def)

lemma finalise_zero [simp]: "finalise sd 0 = 0"
  by (simp add: finalise_def)

lemma finalise_fixed:
  assumes "x \<noteq> 0" "\<bar>x\<bar> * 10 powi (int sd - 1 - exponent x) = of_int n"
  shows "finalise sd x = x"
proof -
  have d: "digitsOf sd x = n" unfolding digitsOf_def assms(2) by linarith
  have "finalise sd x = sgn x * (\<bar>x\<bar> * 10 powi (int sd - 1 - exponent x)) *
      10 powi (exponent x - (int sd - 1))"
    by (simp add: finalise_digitsOf [OF assms(1)] d assms(2))
  also have "\<dots> = sgn x * \<bar>x\<bar> * (10 powi (int sd - 1 - exponent x) *
      10 powi (exponent x - (int sd - 1)))" by (simp only: mult.assoc)
  also have "10 powi (int sd - 1 - exponent x) * 10 powi (exponent x - (int sd - 1)) = (1::rat)"
    by (simp flip: powi10_add)
  finally show ?thesis by (simp add: sgn_mult_abs)
qed

lemma powi10_shift1: "(10::rat) powi (p + 1) * 10 powi (e - p) = 10 powi (e + 1)"
proof -
  have "e + 1 = (p + 1) + (e - p)" by simp
  then have "(10::rat) powi (e + 1) = 10 powi ((p + 1) + (e - p))" by (rule arg_cong)
  then show ?thesis by (simp only: powi10_add)
qed

lemma powi10_shift0: "(10::rat) powi p * 10 powi (e - p) = 10 powi e"
proof -
  have "e = p + (e - p)" by simp
  then have "(10::rat) powi e = 10 powi (p + (e - p))" by (rule arg_cong)
  then show ?thesis by (simp only: powi10_add)
qed

lemma powi10_cancel: "(10::rat) powi (e - p) * 10 powi (p - e) = 1"
proof -
  have "(10::rat) powi (e - p) * 10 powi (p - e) = 10 powi ((e - p) + (p - e))"
    by (simp only: powi10_add)
  then show ?thesis by simp
qed

lemma finalise_idem:
  assumes sd: "0 < sd"
  shows "finalise sd (finalise sd x) = finalise sd x"
proof (cases "x = 0")
  case True
  then show ?thesis by simp
next
  case False
  define e where "e = exponent x"
  define p where "p = int sd - 1"
  define N where "N = digitsOf sd x"
  define y where "y = finalise sd x"
  have ay: "\<bar>y\<bar> = of_int N * 10 powi (e - p)"
    unfolding y_def N_def e_def p_def by (rule finalise_abs [OF False sd])
  have Npos: "0 < N" unfolding N_def by (rule digitsOf_pos [OF False sd])
  have lo: "10 ^ (sd - 1) \<le> N" and hi: "N \<le> 10 ^ sd"
    unfolding N_def by (rule digitsOf_bounds [OF False sd])+
  have plo: "(10::rat) powi p = of_int (10 ^ (sd - 1))"
    unfolding p_def by (rule powi10_nat [OF sd])
  have phi: "(10::rat) powi (p + 1) = of_int (10 ^ sd)"
    unfolding p_def by (rule powi10_nat')
  have "0 < \<bar>y\<bar>" unfolding ay using Npos by (simp add: powi10_pos)
  then have y0: "y \<noteq> 0" by simp
  have "finalise sd y = y"
  proof (cases "N = 10 ^ sd")
    case True
    have "\<bar>y\<bar> = 10 powi (p + 1) * 10 powi (e - p)"
      unfolding ay True phi ..
    also have "\<dots> = 10 powi (e + 1)" by (rule powi10_shift1)
    finally have ay': "\<bar>y\<bar> = 10 powi (e + 1)" .
    have "(10::rat) powi (e + 1) < 10 powi (e + 1 + 1)"
      by (rule power_int_strict_increasing) simp_all
    then have ey: "exponent y = e + 1"
      by (intro exponent_unique) (simp_all add: ay')
    have "\<bar>y\<bar> * 10 powi (int sd - 1 - exponent y) = 10 powi (e + 1) * 10 powi (p - (e + 1))"
      unfolding ay' ey p_def ..
    also have "\<dots> = 10 powi p"
      by (rule powi10_shift0)
    finally have "\<bar>y\<bar> * 10 powi (int sd - 1 - exponent y) = of_int (10 ^ (sd - 1))"
      unfolding plo .
    with y0 show ?thesis by (rule finalise_fixed)
  next
    case False
    with hi have hi': "N < 10 ^ sd" by simp
    have "(10::rat) powi e = 10 powi p * 10 powi (e - p)" by (simp only: powi10_shift0)
    also have "\<dots> \<le> of_int N * 10 powi (e - p)"
      unfolding plo using lo by (intro mult_right_mono) (simp_all add: powi10_pos less_imp_le)
    finally have l: "10 powi e \<le> \<bar>y\<bar>" unfolding ay .
    have "of_int N * (10::rat) powi (e - p) < of_int (10 ^ sd) * 10 powi (e - p)"
      using hi' by (intro mult_strict_right_mono) (simp_all add: powi10_pos)
    also have "\<dots> = 10 powi (p + 1) * 10 powi (e - p)" unfolding phi ..
    also have "\<dots> = 10 powi (e + 1)" by (rule powi10_shift1)
    finally have u: "\<bar>y\<bar> < 10 powi (e + 1)" unfolding ay .
    from l u have ey: "exponent y = e" by (rule exponent_unique)
    have "\<bar>y\<bar> * 10 powi (int sd - 1 - exponent y) = of_int N * (10 powi (e - p) * 10 powi (p - e))"
      unfolding ay ey p_def by (simp only: mult.assoc)
    also have "(10::rat) powi (e - p) * 10 powi (p - e) = 1"
      by (rule powi10_cancel)
    finally have "\<bar>y\<bar> * 10 powi (int sd - 1 - exponent y) = of_int N" by simp
    with y0 show ?thesis by (rule finalise_fixed)
  qed
  then show ?thesis unfolding y_def .
qed

lemma finalise_pos_eq:
  "0 < x \<Longrightarrow> finalise sd x = of_int (digitsOf sd x) * 10 powi (exponent x - (int sd - 1))"
  by (simp add: finalise_digitsOf)

lemma finalise_pos: "0 < sd \<Longrightarrow> 0 < x \<Longrightarrow> 0 < finalise sd x"
  using digitsOf_pos [of x sd] by (simp add: finalise_pos_eq powi10_pos)

lemma finalise_mono_pos:
  assumes sd: "0 < sd" and x: "0 < x" and xy: "x \<le> y"
  shows "finalise sd x \<le> finalise sd y"
proof -
  define p where "p = int sd - 1"
  have y: "0 < y" using x xy by simp
  have x0: "x \<noteq> 0" and y0: "y \<noteq> 0" using x y by simp_all
  have ax: "\<bar>x\<bar> = x" and ay: "\<bar>y\<bar> = y" using x y by simp_all
  have fx: "finalise sd x = of_int (digitsOf sd x) * 10 powi (exponent x - p)"
    unfolding p_def by (rule finalise_pos_eq [OF x])
  have fy: "finalise sd y = of_int (digitsOf sd y) * 10 powi (exponent y - p)"
    unfolding p_def by (rule finalise_pos_eq [OF y])
  have plo: "(10::rat) powi p = of_int (10 ^ (sd - 1))"
    unfolding p_def by (rule powi10_nat [OF sd])
  have phi: "(10::rat) powi (p + 1) = of_int (10 ^ sd)"
    unfolding p_def by (rule powi10_nat')
  have "10 powi exponent x \<le> x" using exponent_bounds(1) [OF x0] ax by simp
  also note xy
  also have "y < 10 powi (exponent y + 1)" using exponent_bounds(2) [OF y0] ay by simp
  finally have "exponent x < exponent y + 1" by (rule powi_less_D)
  then consider "exponent x = exponent y" | "exponent x + 1 \<le> exponent y" by linarith
  then show ?thesis
  proof cases
    case 1
    have "x * 10 powi (int sd - 1 - exponent y) \<le> y * 10 powi (int sd - 1 - exponent y)"
      using xy by (intro mult_right_mono) (simp_all add: powi10_pos less_imp_le)
    then have "digitsOf sd x \<le> digitsOf sd y"
      unfolding digitsOf_def ax ay 1 by (intro floor_mono) simp
    then show ?thesis unfolding fx fy 1
      by (intro mult_right_mono) (simp_all add: powi10_pos less_imp_le)
  next
    case 2
    have "finalise sd x \<le> of_int (10 ^ sd) * 10 powi (exponent x - p)"
      unfolding fx using digitsOf_bounds(2) [OF x0 sd]
      by (intro mult_right_mono) (simp_all add: powi10_pos less_imp_le)
    also have "\<dots> = 10 powi (p + 1) * 10 powi (exponent x - p)" unfolding phi ..
    also have "\<dots> = 10 powi (exponent x + 1)" by (rule powi10_shift1)
    also have "\<dots> \<le> 10 powi exponent y"
      using 2 by (rule power_int_increasing) simp
    also have "\<dots> = 10 powi p * 10 powi (exponent y - p)" by (simp only: powi10_shift0)
    also have "\<dots> \<le> of_int (digitsOf sd y) * 10 powi (exponent y - p)"
      unfolding plo using digitsOf_bounds(1) [OF y0 sd]
      by (intro mult_right_mono) (simp_all add: powi10_pos less_imp_le)
    finally show ?thesis unfolding fy .
  qed
qed

lemma finalise_mono:
  assumes sd: "0 < sd" and xy: "x \<le> y"
  shows "finalise sd x \<le> finalise sd y"
proof -
  consider "0 < x" | "x = 0" | "x < 0" "y < 0" | "x < 0" "0 \<le> y" by linarith
  then show ?thesis
  proof cases
    case 1
    from finalise_mono_pos [OF sd this xy] show ?thesis .
  next
    case 2
    show ?thesis
    proof (cases "y = 0")
      case True
      with 2 show ?thesis by simp
    next
      case False
      with 2 xy have "0 < y" by simp
      from finalise_pos [OF sd this] 2 show ?thesis by simp
    qed
  next
    case 3
    then have "0 < - y" "- y \<le> - x" using xy by simp_all
    from finalise_mono_pos [OF sd this] show ?thesis by (simp add: finalise_uminus)
  next
    case 4
    then have "0 < - x" by simp
    from finalise_pos [OF sd this] have a: "finalise sd x < 0" by (simp add: finalise_uminus)
    have "0 \<le> finalise sd y"
    proof (cases "y = 0")
      case True
      then show ?thesis by simp
    next
      case False
      with 4 have "0 < y" by simp
      from finalise_pos [OF sd this] show ?thesis by simp
    qed
    with a show ?thesis by simp
  qed
qed

lemma finalise_representable:
  assumes sd: "0 < sd" and n: "\<bar>n\<bar> < 10 ^ sd"
  shows "finalise sd (of_int n * 10 powi j) = of_int n * 10 powi j"
proof (cases "n = 0")
  case True
  then show ?thesis by simp
next
  case False
  define x :: rat where "x = of_int n * 10 powi j"
  define p where "p = int sd - 1"
  have x0: "x \<noteq> 0" using False by (simp add: x_def)
  have ax: "\<bar>x\<bar> = of_int \<bar>n\<bar> * 10 powi j"
    by (simp add: x_def abs_mult power_int_abs)
  have "(of_int \<bar>n\<bar> :: rat) < of_int (10 ^ sd)"
    using n by (simp only: of_int_less_iff)
  then have "of_int \<bar>n\<bar> * (10::rat) powi j < of_int (10 ^ sd) * 10 powi j"
    by (intro mult_strict_right_mono) (simp_all add: powi10_pos)
  also have "\<dots> = 10 powi (int sd) * 10 powi j" by simp
  also have "\<dots> = 10 powi (int sd + j)" by (simp only: powi10_add)
  finally have "\<bar>x\<bar> < 10 powi (int sd + j)" unfolding ax .
  with exponent_bounds(1) [OF x0] have "(10::rat) powi exponent x < 10 powi (int sd + j)"
    by (rule le_less_trans)
  then have "exponent x < int sd + j" by (rule powi_less_D)
  then have k: "0 \<le> j + (p - exponent x)" by (simp add: p_def)
  have "\<bar>x\<bar> * 10 powi (p - exponent x) = of_int \<bar>n\<bar> * (10 powi j * 10 powi (p - exponent x))"
    unfolding ax by (simp only: mult.assoc)
  also have "\<dots> = of_int \<bar>n\<bar> * 10 powi (j + (p - exponent x))"
    by (simp only: powi10_add)
  also have "\<dots> = of_int \<bar>n\<bar> * 10 ^ nat (j + (p - exponent x))"
    using k by (simp add: power_int_def)
  also have "\<dots> = of_int (\<bar>n\<bar> * 10 ^ nat (j + (p - exponent x)))" by simp
  finally have "\<bar>x\<bar> * 10 powi (int sd - 1 - exponent x) =
      of_int (\<bar>n\<bar> * 10 ^ nat (j + (p - exponent x)))" unfolding p_def .
  with x0 have "finalise sd x = x" by (rule finalise_fixed)
  then show ?thesis unfolding x_def .
qed

lemma finalise_rounds:
  assumes x: "0 < x"
    and lo: "10 powi k \<le> x" and hi: "x < 10 powi (k + 1)"
    and n: "of_int n \<le> x * 10 powi (int sd - 1 - k) + 1 / 2"
      "x * 10 powi (int sd - 1 - k) + 1 / 2 < of_int n + 1"
  shows "finalise sd x = of_int n * 10 powi (k - (int sd - 1))"
proof -
  have ax: "\<bar>x\<bar> = x" using x by simp
  have e: "exponent x = k" using lo hi by (intro exponent_unique) (simp_all add: ax)
  have "digitsOf sd x = n"
    unfolding digitsOf_def ax e using n by linarith
  then show ?thesis by (simp add: finalise_pos_eq [OF x] e)
qed


section \<open>Facts about decimals\<close>

lemma valueOf_toDecimal: "valueOf (toDecimal x) = finalise precision x"
  by transfer simp

lemma valueOf_fixed: "finalise precision (valueOf a) = valueOf a"
  by transfer (auto simp: finalise_idem precision_def)

lemma toDecimal_valueOf [simp]: "toDecimal (valueOf a) = a"
  by transfer (auto simp: finalise_idem precision_def)

lemma toDecimal_eq_iff:
  "toDecimal x = toDecimal y \<longleftrightarrow> finalise precision x = finalise precision y"
  by transfer simp

lemma Fin_eq_iff [simp]: "Fin x = Fin y \<longleftrightarrow> finalise precision x = finalise precision y"
  by (simp add: Fin_def toDecimal_eq_iff)

lemma Fin_distinct [simp]:
  "Fin x \<noteq> PInf" "Fin x \<noteq> NInf" "Fin x \<noteq> NaN"
  "PInf \<noteq> Fin x" "NInf \<noteq> Fin x" "NaN \<noteq> Fin x"
  by (simp_all add: Fin_def)

lemma toRat_Fin [simp]: "toRat (Fin x) = Some (finalise precision x)"
  by (simp add: Fin_def valueOf_toDecimal)

lemma toRat_Some: "toRat x = Some a \<longleftrightarrow> (\<exists>v. x = Finite v \<and> valueOf v = a)"
  by (cases x) auto

lemma plusD_Fin [simp]:
  "plusD (Fin x) (Fin y) = Fin (finalise precision x + finalise precision y)"
  by (simp add: Fin_def valueOf_toDecimal)

lemma minusD_Fin [simp]:
  "minusD (Fin x) (Fin y) = Fin (finalise precision x - finalise precision y)"
  by (simp add: Fin_def valueOf_toDecimal)

lemma lessThanD_Fin [simp]:
  "lessThanD (Fin x) (Fin y) \<longleftrightarrow> finalise precision x < finalise precision y"
  by (simp add: Fin_def valueOf_toDecimal)

text \<open>Sums and differences of finite decimals are the rounded sums and differences.\<close>

lemma toRat_plusD:
  "toRat x = Some a \<Longrightarrow> toRat y = Some b \<Longrightarrow>
   toRat (plusD x y) = Some (finalise precision (a + b))"
  by (auto simp: toRat_Some valueOf_toDecimal)

lemma toRat_minusD:
  "toRat x = Some a \<Longrightarrow> toRat y = Some b \<Longrightarrow>
   toRat (minusD x y) = Some (finalise precision (a - b))"
  by (auto simp: toRat_Some valueOf_toDecimal)

lemma toRat_plusD_exact:
  "exactSum x y \<Longrightarrow> toRat x = Some a \<Longrightarrow> toRat y = Some b \<Longrightarrow>
   toRat (plusD x y) = Some (a + b)"
  by (simp add: exactSum_def toRat_plusD)

lemma toRat_minusD_exact:
  "exactDiff x y \<Longrightarrow> toRat x = Some a \<Longrightarrow> toRat y = Some b \<Longrightarrow>
   toRat (minusD x y) = Some (a - b)"
  by (simp add: exactDiff_def toRat_minusD)

lemma exactSum_finite: "exactSum x y \<Longrightarrow> \<exists>a b. toRat x = Some a \<and> toRat y = Some b"
  by (auto simp: exactSum_def split: option.splits)

lemma exactDiff_finite: "exactDiff x y \<Longrightarrow> \<exists>a b. toRat x = Some a \<and> toRat y = Some b"
  by (auto simp: exactDiff_def split: option.splits)

lemma plusD_zero [simp]: "plusD (Fin 0) x = x"
  by (cases x) (simp_all add: Fin_def valueOf_toDecimal)

lemma lessThanD_irrefl [simp]: "\<not> lessThanD x x"
  by (cases x) simp_all

text \<open>Rounding is monotone and leaves a finite decimal as it is: a sum with an amount
  that is not negative is not below the decimal it was added to.\<close>

lemma plusD_not_smaller: "\<not> lessThanD a (Fin 0) \<Longrightarrow> \<not> lessThanD (plusD x a) x"
proof (cases x; cases a)
  fix vx va assume xa: "x = Finite vx" "a = Finite va" and "\<not> lessThanD a (Fin 0)"
  then have "0 \<le> valueOf va" by (simp add: Fin_def valueOf_toDecimal)
  then have "valueOf vx \<le> valueOf vx + valueOf va" by simp
  then have "finalise precision (valueOf vx) \<le> finalise precision (valueOf vx + valueOf va)"
    by (intro finalise_mono) (simp_all add: precision_def)
  then show ?thesis using xa by (simp add: valueOf_toDecimal valueOf_fixed)
qed (simp_all add: Fin_def)

subsection \<open>Numbers that need no rounding, and numbers that do\<close>

lemma finalise_numeral [simp]:
  "numeral k < (10::int) ^ 20 \<Longrightarrow> finalise precision (numeral k) = numeral k"
  using finalise_representable [of precision "numeral k" 0] by (simp add: precision_def)

lemma finalise_neg_numeral [simp]:
  "numeral k < (10::int) ^ 20 \<Longrightarrow> finalise precision (- numeral k) = - numeral k"
  using finalise_representable [of precision "- numeral k" 0] by (simp add: precision_def)

lemma finalise_one [simp]: "finalise precision 1 = 1"
  using finalise_representable [of precision 1 0] by (simp add: precision_def)

lemma big_0 [simp]: "finalise precision 100000000000000000000 = 100000000000000000000"
  using finalise_representable [of precision 1 20] by (simp add: precision_def)

lemma big_10 [simp]: "finalise precision 100000000000000000010 = 100000000000000000010"
  using finalise_representable [of precision 10000000000000000001 1]
  by (simp add: precision_def)

lemma big_20 [simp]: "finalise precision 100000000000000000020 = 100000000000000000020"
  using finalise_representable [of precision 10000000000000000002 1]
  by (simp add: precision_def)

lemma big_6 [simp]: "finalise precision 100000000000000000006 = 100000000000000000010"
  using finalise_rounds [of 100000000000000000006 20 10000000000000000001 precision]
  by (simp add: precision_def)

lemma big_12 [simp]: "finalise precision 100000000000000000012 = 100000000000000000010"
  using finalise_rounds [of 100000000000000000012 20 10000000000000000001 precision]
  by (simp add: precision_def)

lemma big_16 [simp]: "finalise precision 100000000000000000016 = 100000000000000000020"
  using finalise_rounds [of 100000000000000000016 20 10000000000000000002 precision]
  by (simp add: precision_def)

lemma fine_a: "finalise precision (123456789 / 100) = 123456789 / 100"
  using finalise_representable [of precision 123456789 "- 2"] by (simp add: precision_def)

lemma fine_b:
  "finalise precision (33000000000000003 / 10000000000000000) =
     33000000000000003 / 10000000000000000"
  using finalise_representable [of precision 33000000000000003 "- 16"]
  by (simp add: precision_def)

lemma fine_sum_rounds:
  "finalise precision (123456789 / 100 + 33000000000000003 / 10000000000000000) =
     123457119 / 100"
  using finalise_rounds [of "123456789 / 100 + 33000000000000003 / 10000000000000000" 6
      12345711900000000000 precision]
  by (simp add: precision_def)

lemma fine_diff_rounds:
  "finalise precision (123456789 / 100 - 33000000000000003 / 10000000000000000) =
     123456459 / 100"
  using finalise_rounds [of "123456789 / 100 - 33000000000000003 / 10000000000000000" 6
      12345645900000000000 precision]
  by (simp add: precision_def)

lemma fine_plus:
  "toRat (plusD (Fin (123456789 / 100)) (Fin (33000000000000003 / 10000000000000000))) =
     Some (123457119 / 100)"
  by (simp only: toRat_plusD [OF toRat_Fin toRat_Fin] fine_a fine_b fine_sum_rounds)

lemma fine_minus:
  "toRat (minusD (Fin (123456789 / 100)) (Fin (33000000000000003 / 10000000000000000))) =
     Some (123456459 / 100)"
  by (simp only: toRat_minusD [OF toRat_Fin toRat_Fin] fine_a fine_b fine_diff_rounds)

lemma fine_inexact:
  "(123457119 / 100 :: rat) \<noteq> 123456789 / 100 + 33000000000000003 / 10000000000000000"
  "(123456459 / 100 :: rat) \<noteq> 123456789 / 100 - 33000000000000003 / 10000000000000000"
  by simp_all


section \<open>Facts about the statements\<close>

lemma find_map_update:
  assumes "\<And>w. adminId (f w) = adminId w"
  shows "find (\<lambda>w. adminId w = a) (map (\<lambda>w. if adminId w = aid then f w else w) ws) =
         (if a = aid then map_option f (find (\<lambda>w. adminId w = a) ws)
          else find (\<lambda>w. adminId w = a) ws)"
  using assms by (induction ws) auto

lemma find_snoc:
  "find P (xs @ [x]) =
     (case find P xs of Some y \<Rightarrow> Some y | None \<Rightarrow> if P x then Some x else None)"
  by (induction xs) auto

lemma find_filter_hd:
  "find P xs = (case filter P xs of [] \<Rightarrow> None | x # _ \<Rightarrow> Some x)"
  by (induction xs) auto

lemma filter_map_update:
  assumes "\<And>w. adminId (f w) = adminId w"
  shows "filter (\<lambda>w. adminId w = a) (map (\<lambda>w. if adminId w = aid then f w else w) ws) =
         (if a = aid then map f (filter (\<lambda>w. adminId w = a) ws)
          else filter (\<lambda>w. adminId w = a) ws)"
  using assms by (induction ws) auto

lemma getTreasuryWallet_updateWallets:
  assumes "\<And>w. adminId (f w) = adminId w"
  shows "getTreasuryWallet (updateWallets aid f d) a =
         (if a = aid then map_option f (getTreasuryWallet d a) else getTreasuryWallet d a)"
  using find_map_update [OF assms] by (simp add: getTreasuryWallet_def updateWallets_def)

lemma getTreasuryWallet_insertTransaction [simp]:
  "getTreasuryWallet (insertTransaction t d) a = getTreasuryWallet d a"
  by (simp add: getTreasuryWallet_def insertTransaction_def)

lemma getTreasuryWallet_insertWallet:
  "getTreasuryWallet (insertWallet w d) a =
     (case getTreasuryWallet d a of
        Some x \<Rightarrow> Some x
      | None \<Rightarrow> if adminId w = a then Some w else None)"
  by (simp add: getTreasuryWallet_def insertWallet_def find_snoc split: option.splits)

lemma getTreasuryWallet_None_iff:
  "getTreasuryWallet d aid = None \<longleftrightarrow> aid \<notin> set (map adminId (treasuryWallets d))"
  by (auto simp: getTreasuryWallet_def find_None_iff)

lemma getTreasuryWallet_walletsOf:
  "getTreasuryWallet d a = (case walletsOf d a of [] \<Rightarrow> None | x # _ \<Rightarrow> Some x)"
  by (simp add: getTreasuryWallet_def walletsOf_def find_filter_hd)

lemma single_wallet_found: "walletsOf d a = [w] \<Longrightarrow> getTreasuryWallet d a = Some w"
  by (simp add: getTreasuryWallet_walletsOf)

lemma walletsOf_updateWallets:
  assumes "\<And>w. adminId (f w) = adminId w"
  shows "walletsOf (updateWallets aid f d) a =
         (if a = aid then map f (walletsOf d a) else walletsOf d a)"
  using filter_map_update [OF assms] by (simp add: walletsOf_def updateWallets_def)

lemma walletsOf_insertTransaction [simp]:
  "walletsOf (insertTransaction t d) a = walletsOf d a"
  by (simp add: walletsOf_def insertTransaction_def)

lemma walletsOf_insertWallet:
  "walletsOf (insertWallet w d) a = walletsOf d a @ (if adminId w = a then [w] else [])"
  by (simp add: walletsOf_def insertWallet_def)

lemma adminIds_updateWallets:
  assumes "\<And>w. adminId (f w) = adminId w"
  shows "map adminId (treasuryWallets (updateWallets aid f d)) = map adminId (treasuryWallets d)"
  using assms by (simp add: updateWallets_def)

lemma transactions_updateWallets [simp]:
  "treasuryWalletTransactions (updateWallets aid f d) = treasuryWalletTransactions d"
  by (simp add: updateWallets_def)

lemma transactions_insertWallet [simp]:
  "treasuryWalletTransactions (insertWallet w d) = treasuryWalletTransactions d"
  by (simp add: insertWallet_def)

lemma transactions_insertTransaction [simp]:
  "treasuryWalletTransactions (insertTransaction t d) = treasuryWalletTransactions d @ [t]"
  by (simp add: insertTransaction_def)

lemma wallets_insertTransaction [simp]:
  "treasuryWallets (insertTransaction t d) = treasuryWallets d"
  by (simp add: insertTransaction_def)


section \<open>Facts about the operations\<close>

subsection \<open>Lookup or create\<close>

lemma adminId_newWallet [simp]: "adminId (newWallet e aid) = aid"
  by (simp add: newWallet_def)

lemma newWallet_ledgerInvariant: "ledgerInvariant (newWallet e aid)"
  by (simp add: ledgerInvariant_def newWallet_def)

lemma createOrGet_existing:
  "getTreasuryWallet d aid = Some w \<Longrightarrow> createOrGetTreasuryWallet e aid d = (w, d)"
  by (simp add: createOrGetTreasuryWallet_def)

lemma createOrGet_missing:
  "getTreasuryWallet d aid = None \<Longrightarrow>
   createOrGetTreasuryWallet e aid d = (newWallet e aid, insertWallet (newWallet e aid) d)"
  by (simp add: createOrGetTreasuryWallet_def)

lemma getTreasuryWallet_created:
  "getTreasuryWallet d aid = None \<Longrightarrow>
   getTreasuryWallet (insertWallet (newWallet e aid) d) aid = Some (newWallet e aid)"
  by (simp add: getTreasuryWallet_insertWallet)

lemma getTreasuryWallet_createOrGet_keeps:
  "getTreasuryWallet d a = Some w \<Longrightarrow>
   getTreasuryWallet (snd (createOrGetTreasuryWallet e aid d)) a = Some w"
  by (simp add: createOrGetTreasuryWallet_def getTreasuryWallet_insertWallet split: option.splits)

lemma balance_createOrGet:
  "balance (fst (createOrGetTreasuryWallet e aid d)) =
     (case getTreasuryWallet d aid of None \<Rightarrow> Fin 0 | Some w \<Rightarrow> balance w)"
  by (simp add: createOrGetTreasuryWallet_def newWallet_def split: option.splits)

lemma walletsOf_createOrGet_other:
  "a \<noteq> aid \<Longrightarrow> walletsOf (snd (createOrGetTreasuryWallet e aid d)) a = walletsOf d a"
  by (simp add: createOrGetTreasuryWallet_def walletsOf_insertWallet split: option.splits)

lemma transactions_createOrGet [simp]:
  "treasuryWalletTransactions (snd (createOrGetTreasuryWallet e aid d)) =
   treasuryWalletTransactions d"
  by (simp add: createOrGetTreasuryWallet_def split: option.splits)

lemma distinct_createOrGet:
  "distinct (map adminId (treasuryWallets d)) \<Longrightarrow>
   distinct (map adminId (treasuryWallets (snd (createOrGetTreasuryWallet e aid d))))"
  by (cases "getTreasuryWallet d aid")
     (simp_all add: createOrGet_missing createOrGet_existing insertWallet_def
        getTreasuryWallet_None_iff)

subsection \<open>The part of an operation after its read\<close>

lemma depositApply_result:
  "fst (depositApply e aid amount r w d) = Inr (plusD (balance w) amount)"
  by (simp add: depositApply_def Let_def)

lemma depositApply_wallet:
  "getTreasuryWallet (snd (depositApply e aid amount r w d)) a =
     (if a = aid
      then map_option (\<lambda>x. x\<lparr>balance := plusD (balance w) amount,
                              totalDeposited := plusD (totalDeposited w) amount,
                              updatedAt := now e\<rparr>) (getTreasuryWallet d a)
      else getTreasuryWallet d a)"
  by (simp add: depositApply_def Let_def getTreasuryWallet_updateWallets)

lemma walletsOf_depositApply:
  "walletsOf (snd (depositApply e aid amount r w d)) a =
     (if a = aid
      then map (\<lambda>x. x\<lparr>balance := plusD (balance w) amount,
                       totalDeposited := plusD (totalDeposited w) amount,
                       updatedAt := now e\<rparr>) (walletsOf d a)
      else walletsOf d a)"
  by (simp add: depositApply_def Let_def walletsOf_updateWallets)

lemma adminIds_depositApply [simp]:
  "map adminId (treasuryWallets (snd (depositApply e aid amount r w d))) =
   map adminId (treasuryWallets d)"
  by (simp add: depositApply_def Let_def adminIds_updateWallets)

lemma depositApply_transactions:
  "treasuryWalletTransactions (snd (depositApply e aid amount r w d)) =
     treasuryWalletTransactions d @
       [\<lparr>txAdminId = aid, txType = ''deposit'', txAmount = amount,
         txDescription = ''Deposited to Treasury wallet'', txReference = Some r,
         relatedChallengeId = None, relatedMatchId = None, txStatus = ''completed'',
         balanceBefore = balance w, balanceAfter = plusD (balance w) amount,
         createdAt = now e\<rparr>]"
  by (simp add: depositApply_def Let_def)

lemma creditApply_result:
  "fst (creditApply e aid amount descr ch m w d) = Inr (plusD (balance w) amount)"
  by (simp add: creditApply_def Let_def)

lemma creditApply_wallet:
  "getTreasuryWallet (snd (creditApply e aid amount descr ch m w d)) a =
     (if a = aid
      then map_option (\<lambda>x. x\<lparr>balance := plusD (balance w) amount,
                              totalEarned := plusD (totalEarned w) amount,
                              updatedAt := now e\<rparr>) (getTreasuryWallet d a)
      else getTreasuryWallet d a)"
  by (simp add: creditApply_def Let_def getTreasuryWallet_updateWallets)

lemma walletsOf_creditApply:
  "walletsOf (snd (creditApply e aid amount descr ch m w d)) a =
     (if a = aid
      then map (\<lambda>x. x\<lparr>balance := plusD (balance w) amount,
                       totalEarned := plusD (totalEarned w) amount,
                       updatedAt := now e\<rparr>) (walletsOf d a)
      else walletsOf d a)"
  by (simp add: creditApply_def Let_def walletsOf_updateWallets)

lemma adminIds_creditApply [simp]:
  "map adminId (treasuryWallets (snd (creditApply e aid amount descr ch m w d))) =
   map adminId (treasuryWallets d)"
  by (simp add: creditApply_def Let_def adminIds_updateWallets)

lemma creditApply_transactions:
  "treasuryWalletTransactions (snd (creditApply e aid amount descr ch m w d)) =
     treasuryWalletTransactions d @
       [\<lparr>txAdminId = aid, txType = ''credit'', txAmount = amount,
         txDescription = descr, txReference = None,
         relatedChallengeId = ch, relatedMatchId = m, txStatus = ''completed'',
         balanceBefore = balance w, balanceAfter = plusD (balance w) amount,
         createdAt = now e\<rparr>]"
  by (simp add: creditApply_def Let_def)

lemma debitApply_result:
  "fst (debitApply e aid amount descr ch w d) =
     (if lessThanD (balance w) amount then Inl (InsufficientBalance (balance w) amount)
      else Inr (minusD (balance w) amount))"
  by (simp add: debitApply_def Let_def)

lemma debitApply_wallet:
  "getTreasuryWallet (snd (debitApply e aid amount descr ch w d)) a =
     (if a = aid \<and> \<not> lessThanD (balance w) amount
      then map_option (\<lambda>x. x\<lparr>balance := minusD (balance w) amount,
                              totalUsed := plusD (totalUsed w) amount,
                              updatedAt := now e\<rparr>) (getTreasuryWallet d a)
      else getTreasuryWallet d a)"
  by (simp add: debitApply_def Let_def getTreasuryWallet_updateWallets)

lemma walletsOf_debitApply:
  "walletsOf (snd (debitApply e aid amount descr ch w d)) a =
     (if a = aid \<and> \<not> lessThanD (balance w) amount
      then map (\<lambda>x. x\<lparr>balance := minusD (balance w) amount,
                       totalUsed := plusD (totalUsed w) amount,
                       updatedAt := now e\<rparr>) (walletsOf d a)
      else walletsOf d a)"
  by (simp add: debitApply_def Let_def walletsOf_updateWallets)

lemma adminIds_debitApply [simp]:
  "map adminId (treasuryWallets (snd (debitApply e aid amount descr ch w d))) =
   map adminId (treasuryWallets d)"
  by (simp add: debitApply_def Let_def adminIds_updateWallets)

lemma debitApply_transactions:
  "treasuryWalletTransactions (snd (debitApply e aid amount descr ch w d)) =
     (if lessThanD (balance w) amount then treasuryWalletTransactions d
      else treasuryWalletTransactions d @
       [\<lparr>txAdminId = aid, txType = ''debit'', txAmount = amount,
         txDescription = descr, txReference = None,
         relatedChallengeId = ch, relatedMatchId = None, txStatus = ''completed'',
         balanceBefore = balance w, balanceAfter = minusD (balance w) amount,
         createdAt = now e\<rparr>])"
  by (simp add: debitApply_def Let_def)

subsection \<open>Deposits\<close>

lemma deposit_eval:
  "getTreasuryWallet d aid = Some w \<Longrightarrow>
   depositToTreasuryWallet e aid amount r d = depositApply e aid amount r w d"
  by (simp add: depositToTreasuryWallet_def createOrGet_existing)

lemma deposit_missing_eval:
  "getTreasuryWallet d aid = None \<Longrightarrow>
   depositToTreasuryWallet e aid amount r d =
     depositApply e aid amount r (newWallet e aid) (insertWallet (newWallet e aid) d)"
  by (simp add: depositToTreasuryWallet_def createOrGet_missing)

lemma deposit_result:
  "fst (depositToTreasuryWallet e aid amount r d) =
     Inr (plusD (balance (fst (createOrGetTreasuryWallet e aid d))) amount)"
  by (cases "createOrGetTreasuryWallet e aid d")
     (simp add: depositToTreasuryWallet_def depositApply_result)

lemma deposit_balance:
  "map_option balance (getTreasuryWallet (snd (depositToTreasuryWallet e aid amount r d)) aid) =
     Some (plusD (balance (fst (createOrGetTreasuryWallet e aid d))) amount)"
proof (cases "getTreasuryWallet d aid")
  case None
  then show ?thesis
    by (simp add: deposit_missing_eval depositApply_wallet getTreasuryWallet_created
        createOrGet_missing)
next
  case (Some w)
  then show ?thesis
    by (simp add: deposit_eval depositApply_wallet createOrGet_existing)
qed

lemma deposit_transactions:
  "treasuryWalletTransactions (snd (depositToTreasuryWallet e aid amount r d)) =
     treasuryWalletTransactions d @
       [\<lparr>txAdminId = aid, txType = ''deposit'', txAmount = amount,
         txDescription = ''Deposited to Treasury wallet'', txReference = Some r,
         relatedChallengeId = None, relatedMatchId = None, txStatus = ''completed'',
         balanceBefore = balance (fst (createOrGetTreasuryWallet e aid d)),
         balanceAfter = plusD (balance (fst (createOrGetTreasuryWallet e aid d))) amount,
         createdAt = now e\<rparr>]"
proof -
  obtain w d1 where c: "createOrGetTreasuryWallet e aid d = (w, d1)"
    by (cases "createOrGetTreasuryWallet e aid d")
  then have "treasuryWalletTransactions d1 = treasuryWalletTransactions d"
    using transactions_createOrGet [of e aid d] by simp
  with c show ?thesis
    by (simp add: depositToTreasuryWallet_def depositApply_transactions)
qed

subsection \<open>The example wallet\<close>

lemma exDb_wallet: "getTreasuryWallet exDb ''admin'' = Some exWallet"
  by (simp add: getTreasuryWallet_def exDb_def exWallet_def)

lemma exWallet_balance: "balance exWallet = Fin 100"
  by (simp add: exWallet_def)

lemma emptyDb_no_wallet: "getTreasuryWallet emptyDb aid = None"
  by (simp add: getTreasuryWallet_def emptyDb_def)

subsection \<open>Single calls and sequences\<close>

lemma ledgerInvariant_iff:
  "ledgerInvariant w \<longleftrightarrow>
     (\<exists>b dp er u. toRat (balance w) = Some b \<and> toRat (totalDeposited w) = Some dp \<and>
        toRat (totalEarned w) = Some er \<and> toRat (totalUsed w) = Some u \<and> b = dp + er - u)"
  by (auto simp: ledgerInvariant_def split: option.splits)

lemma ledgerInvariant_deposit:
  assumes "ledgerInvariant w" "exactSum (balance w) amount" "exactSum (totalDeposited w) amount"
  shows "ledgerInvariant (w\<lparr>balance := plusD (balance w) amount,
            totalDeposited := plusD (totalDeposited w) amount, updatedAt := t\<rparr>)"
proof -
  from assms(1) obtain b dp er u where f: "toRat (balance w) = Some b"
    "toRat (totalDeposited w) = Some dp" "toRat (totalEarned w) = Some er"
    "toRat (totalUsed w) = Some u" "b = dp + er - u"
    unfolding ledgerInvariant_iff by blast
  from exactSum_finite [OF assms(2)] obtain a where a: "toRat amount = Some a" by blast
  have "toRat (plusD (balance w) amount) = Some (b + a)"
    "toRat (plusD (totalDeposited w) amount) = Some (dp + a)"
    using assms(2,3) f a by (simp_all add: toRat_plusD_exact)
  with f show ?thesis unfolding ledgerInvariant_iff by simp
qed

lemma ledgerInvariant_credit:
  assumes "ledgerInvariant w" "exactSum (balance w) amount" "exactSum (totalEarned w) amount"
  shows "ledgerInvariant (w\<lparr>balance := plusD (balance w) amount,
            totalEarned := plusD (totalEarned w) amount, updatedAt := t\<rparr>)"
proof -
  from assms(1) obtain b dp er u where f: "toRat (balance w) = Some b"
    "toRat (totalDeposited w) = Some dp" "toRat (totalEarned w) = Some er"
    "toRat (totalUsed w) = Some u" "b = dp + er - u"
    unfolding ledgerInvariant_iff by blast
  from exactSum_finite [OF assms(2)] obtain a where a: "toRat amount = Some a" by blast
  have "toRat (plusD (balance w) amount) = Some (b + a)"
    "toRat (plusD (totalEarned w) amount) = Some (er + a)"
    using assms(2,3) f a by (simp_all add: toRat_plusD_exact)
  with f show ?thesis unfolding ledgerInvariant_iff by simp
qed

lemma ledgerInvariant_debit:
  assumes "ledgerInvariant w" "exactDiff (balance w) amount" "exactSum (totalUsed w) amount"
  shows "ledgerInvariant (w\<lparr>balance := minusD (balance w) amount,
            totalUsed := plusD (totalUsed w) amount, updatedAt := t\<rparr>)"
proof -
  from assms(1) obtain b dp er u where f: "toRat (balance w) = Some b"
    "toRat (totalDeposited w) = Some dp" "toRat (totalEarned w) = Some er"
    "toRat (totalUsed w) = Some u" "b = dp + er - u"
    unfolding ledgerInvariant_iff by blast
  from exactSum_finite [OF assms(3)] obtain a where a: "toRat amount = Some a" by blast
  have "toRat (minusD (balance w) amount) = Some (b - a)"
    "toRat (plusD (totalUsed w) amount) = Some (u + a)"
    using assms(2,3) f a by (simp_all add: toRat_plusD_exact toRat_minusD_exact)
  with f show ?thesis unfolding ledgerInvariant_iff by simp
qed

lemma exec_keeps_ledgerInvariant:
  assumes one: "walletsOf d a = [w]" and inv: "ledgerInvariant w"
    and exact: "exactCall a e c d"
  shows "\<exists>w'. walletsOf (exec e c d) a = [w'] \<and> ledgerInvariant w'"
proof (cases c)
  case (GetTreasuryWallet x)
  with one inv show ?thesis by simp
next
  case (CreateOrGetTreasuryWallet x)
  show ?thesis
  proof (cases "x = a")
    case True
    with one inv CreateOrGetTreasuryWallet show ?thesis
      by (simp add: createOrGet_existing [OF single_wallet_found])
  next
    case False
    with one inv CreateOrGetTreasuryWallet show ?thesis
      by (simp add: walletsOf_createOrGet_other)
  qed
next
  case (DepositToTreasuryWallet x amount r)
  show ?thesis
  proof (cases "x = a")
    case True
    have ex: "exactSum (balance w) amount" "exactSum (totalDeposited w) amount"
      using exact True DepositToTreasuryWallet
      by (simp_all add: createOrGet_existing [OF single_wallet_found [OF one]])
    have "exec e c d = snd (depositApply e a amount r w d)"
      using True DepositToTreasuryWallet single_wallet_found [OF one]
      by (simp add: deposit_eval)
    with one show ?thesis
      by (simp add: walletsOf_depositApply ledgerInvariant_deposit [OF inv ex])
  next
    case False
    obtain w0 d1 where c1: "createOrGetTreasuryWallet e x d = (w0, d1)"
      by (cases "createOrGetTreasuryWallet e x d")
    from False have "walletsOf d1 a = walletsOf d a"
      using walletsOf_createOrGet_other [of a x e d] c1 by simp
    with False one inv DepositToTreasuryWallet c1 show ?thesis
      by (simp add: depositToTreasuryWallet_def walletsOf_depositApply)
  qed
next
  case (DebitTreasuryWallet x amount descr ch)
  show ?thesis
  proof (cases "x = a")
    case True
    have ex: "exec e c d = snd (debitApply e a amount descr ch w d)"
      using True DebitTreasuryWallet single_wallet_found [OF one]
      by (simp add: debitTreasuryWallet_def)
    show ?thesis
    proof (cases "lessThanD (balance w) amount")
      case True
      with one inv ex show ?thesis by (simp add: walletsOf_debitApply)
    next
      case False
      then have "exactDiff (balance w) amount" "exactSum (totalUsed w) amount"
        using exact \<open>x = a\<close> DebitTreasuryWallet single_wallet_found [OF one] by simp_all
      from ledgerInvariant_debit [OF inv this] one ex False show ?thesis
        by (simp add: walletsOf_debitApply)
    qed
  next
    case False
    with one inv DebitTreasuryWallet show ?thesis
      by (simp add: debitTreasuryWallet_def walletsOf_debitApply split: option.splits)
  qed
next
  case (CreditTreasuryWallet x amount descr ch m)
  show ?thesis
  proof (cases "x = a")
    case True
    have ex: "exactSum (balance w) amount" "exactSum (totalEarned w) amount"
      using exact True CreditTreasuryWallet single_wallet_found [OF one] by simp_all
    have "exec e c d = snd (creditApply e a amount descr ch m w d)"
      using True CreditTreasuryWallet single_wallet_found [OF one]
      by (simp add: creditTreasuryWallet_def)
    with one show ?thesis
      by (simp add: walletsOf_creditApply ledgerInvariant_credit [OF inv ex])
  next
    case False
    with one inv CreditTreasuryWallet show ?thesis
      by (simp add: creditTreasuryWallet_def walletsOf_creditApply split: option.splits)
  qed
next
  case (GetTreasuryWalletTransactions x n)
  with one inv show ?thesis by simp
next
  case (GetTreasuryWalletSummary x)
  with one inv show ?thesis by simp
qed

lemma run_keeps_ledgerInvariant:
  "walletsOf d a = [w] \<Longrightarrow> ledgerInvariant w \<Longrightarrow> exactRun a cs d \<Longrightarrow>
   \<exists>w'. walletsOf (run cs d) a = [w'] \<and> ledgerInvariant w'"
proof (induction cs arbitrary: d w)
  case Nil
  then show ?case by simp
next
  case (Cons ec cs)
  obtain e c where ec: "ec = (e, c)" by (cases ec)
  from Cons.prems(3) ec have x: "exactCall a e c d" "exactRun a cs (exec e c d)" by simp_all
  from exec_keeps_ledgerInvariant [OF Cons.prems(1,2) x(1)]
  obtain w1 where "walletsOf (exec e c d) a = [w1]" "ledgerInvariant w1" by blast
  from Cons.IH [OF this x(2)] ec show ?case by simp
qed

lemma distinct_exec:
  assumes "distinct (map adminId (treasuryWallets d))"
  shows "distinct (map adminId (treasuryWallets (exec e c d)))"
proof (cases c)
  case (DepositToTreasuryWallet aid amount r)
  obtain w0 d1 where c1: "createOrGetTreasuryWallet e aid d = (w0, d1)"
    by (cases "createOrGetTreasuryWallet e aid d")
  with distinct_createOrGet [OF assms, of e aid]
  have "distinct (map adminId (treasuryWallets d1))" by simp
  with c1 DepositToTreasuryWallet show ?thesis
    by (simp add: depositToTreasuryWallet_def)
qed (use assms in \<open>simp_all add: distinct_createOrGet debitTreasuryWallet_def
        creditTreasuryWallet_def split: option.splits\<close>)

lemma distinct_run:
  "distinct (map adminId (treasuryWallets d)) \<Longrightarrow>
   distinct (map adminId (treasuryWallets (run cs d)))"
proof (induction cs arbitrary: d)
  case Nil
  then show ?case by simp
next
  case (Cons ec cs)
  obtain e c where ec: "ec = (e, c)" by (cases ec)
  from Cons.IH [OF distinct_exec [OF Cons.prems, of e c]] ec show ?case by simp
qed

lemma exec_transactions_prefix:
  "prefix (treasuryWalletTransactions d) (treasuryWalletTransactions (exec e c d))"
  by (cases c)
     (simp_all add: deposit_transactions debitTreasuryWallet_def debitApply_transactions
        creditTreasuryWallet_def creditApply_transactions split: option.splits)

lemma exCalls_result:
  "getTreasuryWallet (run exCalls (snd (createOrGetTreasuryWallet exEnv ''admin'' emptyDb)))
     ''admin'' =
     Some \<lparr>adminId = ''admin'', balance = Fin 75, totalDeposited = Fin 100, totalUsed = Fin 30,
           totalEarned = Fin 5, status = ''active'', updatedAt = 1000\<rparr>"
  by (simp add: exCalls_def exEnv_def emptyDb_def createOrGetTreasuryWallet_def
      getTreasuryWallet_def newWallet_def insertWallet_def depositToTreasuryWallet_def
      depositApply_def debitTreasuryWallet_def debitApply_def creditTreasuryWallet_def
      creditApply_def updateWallets_def insertTransaction_def Let_def)

lemma ex_deposit_ok:
  "fst (depositToTreasuryWallet exEnv ''admin'' (Fin 50) ''ref'' exDb) = Inr (Fin 150)"
  by (simp add: deposit_eval [OF exDb_wallet] depositApply_result exWallet_balance)

lemma ex_credit_ok:
  "fst (creditTreasuryWallet exEnv ''admin'' (Fin 50) ''stake'' (Some 7) (Some 9) exDb) =
     Inr (Fin 150)"
  by (simp add: creditTreasuryWallet_def exDb_wallet creditApply_result exWallet_balance)

lemma ex_debit30_ok:
  "fst (debitTreasuryWallet exEnv ''admin'' (Fin 30) ''stake'' (Some 7) exDb) = Inr (Fin 70)"
  by (simp add: debitTreasuryWallet_def exDb_wallet debitApply_result exWallet_balance)

lemma fineDb_wallet: "getTreasuryWallet fineDb ''admin'' = Some fineWallet"
  by (simp add: getTreasuryWallet_def fineDb_def fineWallet_def)

lemma fineWallet_balance: "balance fineWallet = Fin (123456789 / 100)"
  by (simp add: fineWallet_def)

lemma fineWallet_totals:
  "totalEarned fineWallet = Fin (123456789 / 100)"
  "totalUsed fineWallet = Fin (33000000000000003 / 10000000000000000)"
  by (simp_all add: fineWallet_def)

lemma exCalls_exact:
  "exactRun ''admin'' exCalls (snd (createOrGetTreasuryWallet exEnv ''admin'' emptyDb))"
  by (simp add: exCalls_def exEnv_def emptyDb_def createOrGetTreasuryWallet_def
      getTreasuryWallet_def newWallet_def insertWallet_def depositToTreasuryWallet_def
      depositApply_def debitTreasuryWallet_def debitApply_def creditTreasuryWallet_def
      creditApply_def updateWallets_def insertTransaction_def exactSum_def exactDiff_def Let_def)

lemma bigCalls_result:
  "getTreasuryWallet (run bigCalls (snd (createOrGetTreasuryWallet exEnv ''admin'' emptyDb)))
     ''admin'' =
     Some \<lparr>adminId = ''admin'', balance = Fin 100000000000000000020,
           totalDeposited = Fin 100000000000000000000, totalUsed = Fin 0,
           totalEarned = Fin 12, status = ''active'', updatedAt = 1000\<rparr>"
  by (simp add: bigCalls_def exEnv_def emptyDb_def createOrGetTreasuryWallet_def
      getTreasuryWallet_def newWallet_def insertWallet_def depositToTreasuryWallet_def
      depositApply_def creditTreasuryWallet_def creditApply_def updateWallets_def
      insertTransaction_def Let_def)

lemma ex_debit_ok:
  "fst (debitTreasuryWallet exEnv ''admin'' (Fin 50) ''stake'' (Some 7) exDb) = Inr (Fin 50)"
  by (simp add: debitTreasuryWallet_def exDb_wallet debitApply_result exWallet_balance)


section \<open>Properties of the ledger\<close>

subsection \<open>Balance after an operation\<close>

text \<open>
  C1. For every successful mutating operation on an existing wallet, the wallet's balance
  after the operation is the decimal sum of the balance before and the amount for
  \<open>depositToTreasuryWallet\<close> and \<open>creditTreasuryWallet\<close>, and the decimal difference of
  the balance before and the amount for \<open>debitTreasuryWallet\<close>, and the operation returns
  this new balance. The decimal sum and difference of finite values are the exact sum and
  difference rounded to 20 significant digits: exact when the exact result has no more
  digits than that, and not otherwise.
\<close>

theorem balance_after_operation:
  "getTreasuryWallet d aid = Some w \<Longrightarrow>
   (\<forall>r. fst (depositToTreasuryWallet e aid amount ref d) = Inr r \<longrightarrow>
      r = plusD (balance w) amount \<and>
      map_option balance
        (getTreasuryWallet (snd (depositToTreasuryWallet e aid amount ref d)) aid) = Some r \<and>
      (\<forall>b a. toRat (balance w) = Some b \<longrightarrow> toRat amount = Some a \<longrightarrow>
         toRat r = Some (finalise precision (b + a)))) \<and>
   (\<forall>r. fst (creditTreasuryWallet e aid amount descr ch m d) = Inr r \<longrightarrow>
      r = plusD (balance w) amount \<and>
      map_option balance
        (getTreasuryWallet (snd (creditTreasuryWallet e aid amount descr ch m d)) aid) = Some r \<and>
      (\<forall>b a. toRat (balance w) = Some b \<longrightarrow> toRat amount = Some a \<longrightarrow>
         toRat r = Some (finalise precision (b + a)))) \<and>
   (\<forall>r. fst (debitTreasuryWallet e aid amount descr ch d) = Inr r \<longrightarrow>
      r = minusD (balance w) amount \<and>
      map_option balance
        (getTreasuryWallet (snd (debitTreasuryWallet e aid amount descr ch d)) aid) = Some r \<and>
      (\<forall>b a. toRat (balance w) = Some b \<longrightarrow> toRat amount = Some a \<longrightarrow>
         toRat r = Some (finalise precision (b - a))))"
  by (auto simp: deposit_eval depositApply_result depositApply_wallet
        creditTreasuryWallet_def creditApply_result creditApply_wallet
        debitTreasuryWallet_def debitApply_result debitApply_wallet
        toRat_plusD toRat_minusD split: if_splits)

text \<open>
  At a wallet holding 100: depositing or crediting 50 gives 150, debiting 30 gives 70.
\<close>

theorem balance_after_operation_witness:
  "getTreasuryWallet exDb ''admin'' = Some exWallet \<and>
   toRat (balance exWallet) = Some 100 \<and>
   fst (depositToTreasuryWallet exEnv ''admin'' (Fin 50) ''ref'' exDb) = Inr (Fin 150) \<and>
   map_option balance
     (getTreasuryWallet (snd (depositToTreasuryWallet exEnv ''admin'' (Fin 50) ''ref'' exDb))
        ''admin'') = Some (Fin 150) \<and>
   fst (creditTreasuryWallet exEnv ''admin'' (Fin 50) ''stake'' (Some 7) (Some 9) exDb) =
     Inr (Fin 150) \<and>
   map_option balance
     (getTreasuryWallet
        (snd (creditTreasuryWallet exEnv ''admin'' (Fin 50) ''stake'' (Some 7) (Some 9) exDb))
        ''admin'') = Some (Fin 150) \<and>
   toRat (Fin 150) = Some (finalise precision (100 + 50)) \<and>
   fst (debitTreasuryWallet exEnv ''admin'' (Fin 30) ''stake'' (Some 7) exDb) = Inr (Fin 70) \<and>
   map_option balance
     (getTreasuryWallet (snd (debitTreasuryWallet exEnv ''admin'' (Fin 30) ''stake'' (Some 7) exDb))
        ''admin'') = Some (Fin 70) \<and>
   toRat (Fin 70) = Some (finalise precision (100 - 30)) \<and>
   Fin 70 \<noteq> Fin 30 \<and> Fin 70 \<noteq> Fin 100"
  using balance_after_operation [OF exDb_wallet, where e = exEnv and amount = "Fin 50"
      and ref = "''ref''" and descr = "''stake''" and ch = "Some 7" and m = "Some 9"]
    balance_after_operation [OF exDb_wallet, where e = exEnv and amount = "Fin 30"
      and ref = "''ref''" and descr = "''stake''" and ch = "Some 7" and m = "Some 9"]
    ex_deposit_ok ex_credit_ok ex_debit30_ok exDb_wallet
  by (simp add: exWallet_balance)

text \<open>
  A deposit of 3.3000000000000003 into a wallet holding 1234567.89 returns and stores
  1234571.19, which is not the exact sum 1234571.1900000000000003.
\<close>

theorem balance_after_operation_counterexample:
  "getTreasuryWallet fineDb ''admin'' = Some fineWallet \<and>
   toRat (balance fineWallet) = Some (123456789 / 100) \<and>
   toRat (Fin (33000000000000003 / 10000000000000000)) =
     Some (33000000000000003 / 10000000000000000) \<and>
   map_sum id toRat
     (fst (depositToTreasuryWallet exEnv ''admin''
            (Fin (33000000000000003 / 10000000000000000)) ''ref'' fineDb)) =
     Inr (Some (123457119 / 100)) \<and>
   map_option toRat
     (map_option balance
       (getTreasuryWallet
         (snd (depositToTreasuryWallet exEnv ''admin''
                (Fin (33000000000000003 / 10000000000000000)) ''ref'' fineDb)) ''admin'')) =
     Some (Some (123457119 / 100)) \<and>
   (123457119 / 100 :: rat) \<noteq> 123456789 / 100 + 33000000000000003 / 10000000000000000"
  by (simp add: deposit_eval [OF fineDb_wallet] depositApply_result depositApply_wallet
      fineDb_wallet fineWallet_balance fine_plus fine_a fine_b del: plusD_Fin)


subsection \<open>Running totals\<close>

text \<open>
  C2. For every mutating operation (deposit, debit, credit) whose amount is not less than
  zero, the running totals \<open>totalDeposited\<close>, \<open>totalUsed\<close> and \<open>totalEarned\<close> of every
  wallet are non-decreasing: after the operation, whether it succeeded or threw, none of
  the three is smaller than it was before. The service does not check the sign of the
  amount, and a negative amount lowers the total that the operation updates.
\<close>

theorem totals_non_decreasing:
  assumes nonneg: "\<not> lessThanD amount (Fin 0)" and w: "getTreasuryWallet d a = Some w"
  shows "(\<exists>w'. getTreasuryWallet (snd (depositToTreasuryWallet e aid amount ref d)) a = Some w' \<and>
               totalsNotSmaller w w') \<and>
         (\<exists>w'. getTreasuryWallet (snd (debitTreasuryWallet e aid amount descr ch d)) a = Some w' \<and>
               totalsNotSmaller w w') \<and>
         (\<exists>w'. getTreasuryWallet (snd (creditTreasuryWallet e aid amount descr ch m d)) a = Some w' \<and>
               totalsNotSmaller w w')"
proof (intro conjI)
  obtain w0 d1 where c: "createOrGetTreasuryWallet e aid d = (w0, d1)"
    by (cases "createOrGetTreasuryWallet e aid d")
  have w1: "getTreasuryWallet d1 a = Some w"
    using getTreasuryWallet_createOrGet_keeps [OF w, of e aid] c by simp
  show "\<exists>w'. getTreasuryWallet (snd (depositToTreasuryWallet e aid amount ref d)) a = Some w' \<and>
               totalsNotSmaller w w'"
  proof (cases "a = aid")
    case True
    with w c have "w0 = w" by (simp add: createOrGet_existing)
    with c w1 True show ?thesis
      by (simp add: depositToTreasuryWallet_def depositApply_wallet totalsNotSmaller_def
          plusD_not_smaller [OF nonneg])
  next
    case False
    with c w1 show ?thesis
      by (simp add: depositToTreasuryWallet_def depositApply_wallet totalsNotSmaller_def)
  qed
next
  show "\<exists>w'. getTreasuryWallet (snd (debitTreasuryWallet e aid amount descr ch d)) a = Some w' \<and>
               totalsNotSmaller w w'"
  proof (cases "getTreasuryWallet d aid")
    case None
    with w show ?thesis by (simp add: debitTreasuryWallet_def totalsNotSmaller_def)
  next
    case (Some v)
    with w show ?thesis
      by (auto simp: debitTreasuryWallet_def debitApply_wallet totalsNotSmaller_def
          plusD_not_smaller [OF nonneg])
  qed
next
  show "\<exists>w'. getTreasuryWallet (snd (creditTreasuryWallet e aid amount descr ch m d)) a = Some w' \<and>
               totalsNotSmaller w w'"
  proof (cases "getTreasuryWallet d aid")
    case None
    with w show ?thesis by (simp add: creditTreasuryWallet_def totalsNotSmaller_def)
  next
    case (Some v)
    with w show ?thesis
      by (auto simp: creditTreasuryWallet_def creditApply_wallet totalsNotSmaller_def
          plusD_not_smaller [OF nonneg])
  qed
qed

text \<open>An amount of 5 on the wallet of the example.\<close>

theorem totals_non_decreasing_witness:
  "\<not> lessThanD (Fin 5) (Fin 0) \<and> getTreasuryWallet exDb ''admin'' = Some exWallet \<and>
   (\<exists>w'. getTreasuryWallet
            (snd (depositToTreasuryWallet exEnv ''admin'' (Fin 5) ''ref'' exDb)) ''admin''
            = Some w' \<and> totalsNotSmaller exWallet w') \<and>
   (\<exists>w'. getTreasuryWallet
            (snd (debitTreasuryWallet exEnv ''admin'' (Fin 5) ''stake'' None exDb)) ''admin''
            = Some w' \<and> totalsNotSmaller exWallet w') \<and>
   (\<exists>w'. getTreasuryWallet
            (snd (creditTreasuryWallet exEnv ''admin'' (Fin 5) ''stake'' None None exDb)) ''admin''
            = Some w' \<and> totalsNotSmaller exWallet w')"
proof -
  have h1: "\<not> lessThanD (Fin 5) (Fin 0)" by simp
  from totals_non_decreasing [OF h1 exDb_wallet, of exEnv "''admin''" "''ref''" "''stake''" None None]
    h1 exDb_wallet
  show ?thesis by simp
qed

text \<open>
  A deposit of \<open>-5\<close> into a wallet whose \<open>totalDeposited\<close> is 100 leaves it at 95.
\<close>

theorem totals_non_decreasing_counterexample:
  "map_option totalDeposited (getTreasuryWallet exDb ''admin'') = Some (Fin 100) \<and>
   map_option totalDeposited
     (getTreasuryWallet (snd (depositToTreasuryWallet exEnv ''admin'' (Fin (- 5)) ''ref'' exDb))
        ''admin'') = Some (Fin 95) \<and>
   lessThanD (Fin 95) (Fin 100)"
  by (simp add: deposit_eval [OF exDb_wallet] depositApply_wallet exDb_wallet exWallet_def)


subsection \<open>The transaction row of an operation\<close>

text \<open>
  C3. Every successful mutating operation (deposit, debit, credit) inserts exactly one
  transaction row: the table afterwards is the table before with one row appended, whose
  type names the operation, whose amount is the operation's amount, whose \<open>balanceBefore\<close>
  is the wallet's balance before the operation and whose \<open>balanceAfter\<close> is the wallet's
  balance after it. For a deposit that creates the wallet, the balance before is that of
  the new wallet, zero.
\<close>

theorem transaction_row_inserted:
  "(\<forall>r. fst (depositToTreasuryWallet e aid amount ref d) = Inr r \<longrightarrow>
      (\<exists>t. treasuryWalletTransactions (snd (depositToTreasuryWallet e aid amount ref d)) =
              treasuryWalletTransactions d @ [t] \<and>
           txAdminId t = aid \<and> txType t = ''deposit'' \<and> txAmount t = amount \<and>
           balanceBefore t =
             (case getTreasuryWallet d aid of None \<Rightarrow> Fin 0 | Some w \<Rightarrow> balance w) \<and>
           map_option balance
             (getTreasuryWallet (snd (depositToTreasuryWallet e aid amount ref d)) aid) =
               Some (balanceAfter t))) \<and>
   (\<forall>r. fst (debitTreasuryWallet e aid amount descr ch d) = Inr r \<longrightarrow>
      (\<exists>t. treasuryWalletTransactions (snd (debitTreasuryWallet e aid amount descr ch d)) =
              treasuryWalletTransactions d @ [t] \<and>
           txAdminId t = aid \<and> txType t = ''debit'' \<and> txAmount t = amount \<and>
           map_option balance (getTreasuryWallet d aid) = Some (balanceBefore t) \<and>
           map_option balance
             (getTreasuryWallet (snd (debitTreasuryWallet e aid amount descr ch d)) aid) =
               Some (balanceAfter t))) \<and>
   (\<forall>r. fst (creditTreasuryWallet e aid amount descr ch m d) = Inr r \<longrightarrow>
      (\<exists>t. treasuryWalletTransactions (snd (creditTreasuryWallet e aid amount descr ch m d)) =
              treasuryWalletTransactions d @ [t] \<and>
           txAdminId t = aid \<and> txType t = ''credit'' \<and> txAmount t = amount \<and>
           map_option balance (getTreasuryWallet d aid) = Some (balanceBefore t) \<and>
           map_option balance
             (getTreasuryWallet (snd (creditTreasuryWallet e aid amount descr ch m d)) aid) =
               Some (balanceAfter t)))"
proof (intro conjI allI impI)
  fix r assume "fst (depositToTreasuryWallet e aid amount ref d) = Inr r"
  show "\<exists>t. treasuryWalletTransactions (snd (depositToTreasuryWallet e aid amount ref d)) =
              treasuryWalletTransactions d @ [t] \<and>
           txAdminId t = aid \<and> txType t = ''deposit'' \<and> txAmount t = amount \<and>
           balanceBefore t =
             (case getTreasuryWallet d aid of None \<Rightarrow> Fin 0 | Some w \<Rightarrow> balance w) \<and>
           map_option balance
             (getTreasuryWallet (snd (depositToTreasuryWallet e aid amount ref d)) aid) =
               Some (balanceAfter t)"
    by (simp add: deposit_transactions deposit_balance balance_createOrGet)
next
  fix r assume ok: "fst (debitTreasuryWallet e aid amount descr ch d) = Inr r"
  then obtain w where w: "getTreasuryWallet d aid = Some w"
    by (cases "getTreasuryWallet d aid") (simp_all add: debitTreasuryWallet_def)
  with ok have "\<not> lessThanD (balance w) amount"
    by (simp add: debitTreasuryWallet_def debitApply_result split: if_splits)
  with w show "\<exists>t. treasuryWalletTransactions (snd (debitTreasuryWallet e aid amount descr ch d)) =
              treasuryWalletTransactions d @ [t] \<and>
           txAdminId t = aid \<and> txType t = ''debit'' \<and> txAmount t = amount \<and>
           map_option balance (getTreasuryWallet d aid) = Some (balanceBefore t) \<and>
           map_option balance
             (getTreasuryWallet (snd (debitTreasuryWallet e aid amount descr ch d)) aid) =
               Some (balanceAfter t)"
    by (simp add: debitTreasuryWallet_def debitApply_transactions debitApply_wallet)
next
  fix r assume ok: "fst (creditTreasuryWallet e aid amount descr ch m d) = Inr r"
  then obtain w where w: "getTreasuryWallet d aid = Some w"
    by (cases "getTreasuryWallet d aid") (simp_all add: creditTreasuryWallet_def)
  then show "\<exists>t. treasuryWalletTransactions (snd (creditTreasuryWallet e aid amount descr ch m d)) =
              treasuryWalletTransactions d @ [t] \<and>
           txAdminId t = aid \<and> txType t = ''credit'' \<and> txAmount t = amount \<and>
           map_option balance (getTreasuryWallet d aid) = Some (balanceBefore t) \<and>
           map_option balance
             (getTreasuryWallet (snd (creditTreasuryWallet e aid amount descr ch m d)) aid) =
               Some (balanceAfter t)"
    by (simp add: creditTreasuryWallet_def creditApply_transactions creditApply_wallet)
qed

text \<open>The three operations with amount 50 on the wallet of the example, all successful.\<close>

theorem transaction_row_inserted_witness:
  "fst (depositToTreasuryWallet exEnv ''admin'' (Fin 50) ''ref'' exDb) = Inr (Fin 150) \<and>
   (\<exists>t. treasuryWalletTransactions (snd (depositToTreasuryWallet exEnv ''admin'' (Fin 50) ''ref'' exDb)) =
           treasuryWalletTransactions exDb @ [t] \<and>
        txAdminId t = ''admin'' \<and> txType t = ''deposit'' \<and> txAmount t = Fin 50 \<and>
        balanceBefore t = Fin 100 \<and>
        map_option balance
          (getTreasuryWallet (snd (depositToTreasuryWallet exEnv ''admin'' (Fin 50) ''ref'' exDb))
             ''admin'') = Some (balanceAfter t)) \<and>
   fst (debitTreasuryWallet exEnv ''admin'' (Fin 50) ''stake'' (Some 7) exDb) = Inr (Fin 50) \<and>
   (\<exists>t. treasuryWalletTransactions
           (snd (debitTreasuryWallet exEnv ''admin'' (Fin 50) ''stake'' (Some 7) exDb)) =
           treasuryWalletTransactions exDb @ [t] \<and>
        txAdminId t = ''admin'' \<and> txType t = ''debit'' \<and> txAmount t = Fin 50 \<and>
        map_option balance (getTreasuryWallet exDb ''admin'') = Some (balanceBefore t) \<and>
        map_option balance
          (getTreasuryWallet
             (snd (debitTreasuryWallet exEnv ''admin'' (Fin 50) ''stake'' (Some 7) exDb))
             ''admin'') = Some (balanceAfter t)) \<and>
   fst (creditTreasuryWallet exEnv ''admin'' (Fin 50) ''stake'' (Some 7) (Some 9) exDb) =
     Inr (Fin 150) \<and>
   (\<exists>t. treasuryWalletTransactions
           (snd (creditTreasuryWallet exEnv ''admin'' (Fin 50) ''stake'' (Some 7) (Some 9) exDb)) =
           treasuryWalletTransactions exDb @ [t] \<and>
        txAdminId t = ''admin'' \<and> txType t = ''credit'' \<and> txAmount t = Fin 50 \<and>
        map_option balance (getTreasuryWallet exDb ''admin'') = Some (balanceBefore t) \<and>
        map_option balance
          (getTreasuryWallet
             (snd (creditTreasuryWallet exEnv ''admin'' (Fin 50) ''stake'' (Some 7) (Some 9) exDb))
             ''admin'') = Some (balanceAfter t))"
  using transaction_row_inserted [of exEnv "''admin''" "Fin 50" "''ref''" exDb "''stake''"
      "Some 7" "Some 9"]
    ex_deposit_ok ex_debit_ok ex_credit_ok
  by (simp add: exDb_wallet exWallet_balance)


subsection \<open>Lookup or create\<close>

text \<open>
  C4. Of the three ledger operations only the deposit performs lookup-or-create: it never
  throws, and for an admin without a treasury wallet it creates the wallet and applies its
  delta, so that balance and \<open>totalDeposited\<close> are the amount. \<open>debitTreasuryWallet\<close>
  and \<open>creditTreasuryWallet\<close> only look the wallet up: for an admin without a wallet
  they throw the wallet-not-found error and leave the database as it was.
\<close>

theorem lookup_or_create_deposit_only:
  "(\<exists>r. fst (depositToTreasuryWallet e aid amount ref d) = Inr r) \<and>
   (getTreasuryWallet d aid = None \<longrightarrow>
      fst (depositToTreasuryWallet e aid amount ref d) = Inr amount \<and>
      getTreasuryWallet (snd (depositToTreasuryWallet e aid amount ref d)) aid =
        Some ((newWallet e aid)\<lparr>balance := amount, totalDeposited := amount\<rparr>) \<and>
      debitTreasuryWallet e aid amount descr ch d = (Inl WalletNotFound, d) \<and>
      creditTreasuryWallet e aid amount descr ch m d = (Inl WalletNotFound, d))"
proof (intro conjI impI)
  show "\<exists>r. fst (depositToTreasuryWallet e aid amount ref d) = Inr r"
    by (simp add: deposit_result)
next
  assume n: "getTreasuryWallet d aid = None"
  have b: "balance (newWallet e aid) = Fin 0" "totalDeposited (newWallet e aid) = Fin 0"
    "updatedAt (newWallet e aid) = now e"
    by (simp_all add: newWallet_def)
  show "fst (depositToTreasuryWallet e aid amount ref d) = Inr amount"
    by (simp add: deposit_missing_eval [OF n] depositApply_result b)
  show "getTreasuryWallet (snd (depositToTreasuryWallet e aid amount ref d)) aid =
        Some ((newWallet e aid)\<lparr>balance := amount, totalDeposited := amount\<rparr>)"
    using b(3) by (simp add: deposit_missing_eval [OF n] depositApply_wallet
        getTreasuryWallet_created [OF n] b(1,2))
  show "debitTreasuryWallet e aid amount descr ch d = (Inl WalletNotFound, d)"
    by (simp add: debitTreasuryWallet_def n)
  show "creditTreasuryWallet e aid amount descr ch m d = (Inl WalletNotFound, d)"
    by (simp add: creditTreasuryWallet_def n)
qed

text \<open>On the empty database, for an admin who has no wallet.\<close>

theorem lookup_or_create_deposit_only_witness:
  "getTreasuryWallet emptyDb ''admin'' = None \<and>
   fst (depositToTreasuryWallet exEnv ''admin'' (Fin 25) ''ref'' emptyDb) = Inr (Fin 25) \<and>
   map_option balance
     (getTreasuryWallet (snd (depositToTreasuryWallet exEnv ''admin'' (Fin 25) ''ref'' emptyDb))
        ''admin'') = Some (Fin 25) \<and>
   debitTreasuryWallet exEnv ''admin'' (Fin 25) ''stake'' None emptyDb =
     (Inl WalletNotFound, emptyDb) \<and>
   creditTreasuryWallet exEnv ''admin'' (Fin 25) ''stake'' None None emptyDb =
     (Inl WalletNotFound, emptyDb)"
  using lookup_or_create_deposit_only [of exEnv "''admin''" "Fin 25" "''ref''" emptyDb
      "''stake''" None None]
    emptyDb_no_wallet [of "''admin''"]
  by simp

text \<open>
  A debit and a credit for an admin without a wallet: both throw, and no wallet is created.
\<close>

theorem lookup_or_create_counterexample:
  "getTreasuryWallet emptyDb ''nobody'' = None \<and>
   fst (debitTreasuryWallet exEnv ''nobody'' (Fin 10) ''stake'' None emptyDb) =
     Inl WalletNotFound \<and>
   snd (debitTreasuryWallet exEnv ''nobody'' (Fin 10) ''stake'' None emptyDb) = emptyDb \<and>
   fst (creditTreasuryWallet exEnv ''nobody'' (Fin 10) ''won'' None None emptyDb) =
     Inl WalletNotFound \<and>
   snd (creditTreasuryWallet exEnv ''nobody'' (Fin 10) ''won'' None None emptyDb) = emptyDb"
  by (simp add: debitTreasuryWallet_def creditTreasuryWallet_def emptyDb_no_wallet)


subsection \<open>A debit that throws\<close>

text \<open>
  C5. \<open>debitTreasuryWallet\<close> throws the insufficient-balance error if and only if the
  wallet exists and its balance is strictly less than the requested amount; whenever it
  throws, for insufficient balance or for a missing wallet, the database is unchanged:
  the wallet record is as before and no transaction row is inserted.
\<close>

theorem debit_throws:
  "((\<exists>have need. fst (debitTreasuryWallet e aid amount descr ch d) =
        Inl (InsufficientBalance have need))
      \<longleftrightarrow> (\<exists>w. getTreasuryWallet d aid = Some w \<and> lessThanD (balance w) amount)) \<and>
   (\<forall>err. fst (debitTreasuryWallet e aid amount descr ch d) = Inl err \<longrightarrow>
      snd (debitTreasuryWallet e aid amount descr ch d) = d)"
  by (auto simp: debitTreasuryWallet_def debitApply_def Let_def split: option.splits)

text \<open>A debit of 500 from a wallet holding 100.\<close>

theorem debit_throws_witness:
  "getTreasuryWallet exDb ''admin'' = Some exWallet \<and> lessThanD (balance exWallet) (Fin 500) \<and>
   fst (debitTreasuryWallet exEnv ''admin'' (Fin 500) ''stake'' None exDb)
     = Inl (InsufficientBalance (Fin 100) (Fin 500)) \<and>
   snd (debitTreasuryWallet exEnv ''admin'' (Fin 500) ''stake'' None exDb) = exDb"
proof -
  have l: "lessThanD (balance exWallet) (Fin 500)"
    by (simp add: exWallet_balance)
  have r: "fst (debitTreasuryWallet exEnv ''admin'' (Fin 500) ''stake'' None exDb)
     = Inl (InsufficientBalance (Fin 100) (Fin 500))"
    by (simp add: debitTreasuryWallet_def exDb_wallet debitApply_result exWallet_balance)
  from debit_throws [of exEnv "''admin''" "Fin 500" "''stake''" None exDb] exDb_wallet l r
  show ?thesis by simp
qed


subsection \<open>The ledger invariant\<close>

text \<open>
  C6. For every wallet created by \<open>createOrGetTreasuryWallet\<close>, which sets balance,
  \<open>totalDeposited\<close>, \<open>totalUsed\<close> and \<open>totalEarned\<close> to zero, and any sequence of
  service calls that follows in which the operations on that wallet have finite amounts
  and compute sums and differences of at most 20 significant digits, so that none is
  rounded, the wallet of that admin satisfies
  \<open>balance = totalDeposited + totalEarned - totalUsed\<close> as an equation between the
  numbers the four fields stand for. The sequence is arbitrary, so the equation holds
  after every operation of it; calls that throw change nothing. Once a sum has been
  rounded, balance and totals have been rounded apart and the equation need not hold.
\<close>

theorem ledger_invariant_holds:
  assumes "getTreasuryWallet d aid = None"
    and "exactRun aid cs (snd (createOrGetTreasuryWallet e aid d))"
  shows "\<exists>w b dp er u.
           getTreasuryWallet (run cs (snd (createOrGetTreasuryWallet e aid d))) aid = Some w \<and>
           toRat (balance w) = Some b \<and> toRat (totalDeposited w) = Some dp \<and>
           toRat (totalEarned w) = Some er \<and> toRat (totalUsed w) = Some u \<and>
           b = dp + er - u"
proof -
  from assms(1) have "walletsOf d aid = []"
    by (simp add: getTreasuryWallet_walletsOf split: list.splits)
  with assms(1)
  have "walletsOf (snd (createOrGetTreasuryWallet e aid d)) aid = [newWallet e aid]"
    by (simp add: createOrGet_missing walletsOf_insertWallet)
  from run_keeps_ledgerInvariant [OF this newWallet_ledgerInvariant assms(2)]
  obtain w' where "walletsOf (run cs (snd (createOrGetTreasuryWallet e aid d))) aid = [w']"
    and "ledgerInvariant w'" by blast
  then show ?thesis
    unfolding ledgerInvariant_iff by (auto simp: single_wallet_found)
qed

text \<open>
  A new wallet, then a deposit of 100, a debit of 30 and a credit of 5 (and a deposit for
  another admin): nothing is rounded, and the wallet holds 75 = 100 + 5 - 30.
\<close>

theorem ledger_invariant_holds_witness:
  "getTreasuryWallet emptyDb ''admin'' = None \<and>
   exactRun ''admin'' exCalls (snd (createOrGetTreasuryWallet exEnv ''admin'' emptyDb)) \<and>
   (\<exists>w b dp er u.
      getTreasuryWallet (run exCalls (snd (createOrGetTreasuryWallet exEnv ''admin'' emptyDb)))
        ''admin'' = Some w \<and>
      toRat (balance w) = Some b \<and> toRat (totalDeposited w) = Some dp \<and>
      toRat (totalEarned w) = Some er \<and> toRat (totalUsed w) = Some u \<and>
      b = dp + er - u) \<and>
   map_option balance
     (getTreasuryWallet (run exCalls (snd (createOrGetTreasuryWallet exEnv ''admin'' emptyDb)))
        ''admin'') = Some (Fin 75)"
  using ledger_invariant_holds [where d = emptyDb and aid = "''admin''" and cs = exCalls
      and e = exEnv, OF emptyDb_no_wallet exCalls_exact]
    emptyDb_no_wallet [of "''admin''"] exCalls_exact
  by (simp add: exCalls_result)

text \<open>
  A new wallet, then a deposit of 100000000000000000000 and two credits of 6. Each credit
  rounds the balance up, to 100000000000000000010 and to 100000000000000000020, while
  \<open>totalEarned\<close> is 12: the balance is neither the exact
  \<open>totalDeposited + totalEarned - totalUsed\<close>, 100000000000000000012, nor that
  expression in decimal arithmetic, 100000000000000000010.
\<close>

theorem ledger_invariant_holds_counterexample:
  "getTreasuryWallet emptyDb ''admin'' = None \<and>
   getTreasuryWallet (run bigCalls (snd (createOrGetTreasuryWallet exEnv ''admin'' emptyDb)))
     ''admin'' =
     Some \<lparr>adminId = ''admin'', balance = Fin 100000000000000000020,
           totalDeposited = Fin 100000000000000000000, totalUsed = Fin 0,
           totalEarned = Fin 12, status = ''active'', updatedAt = 1000\<rparr> \<and>
   toRat (Fin 100000000000000000020) = Some 100000000000000000020 \<and>
   toRat (Fin 100000000000000000000) = Some 100000000000000000000 \<and>
   toRat (Fin 12) = Some 12 \<and> toRat (Fin 0) = Some 0 \<and>
   (100000000000000000020 :: rat) \<noteq> 100000000000000000000 + 12 - 0 \<and>
   minusD (plusD (Fin 100000000000000000000) (Fin 12)) (Fin 0) = Fin 100000000000000000010 \<and>
   Fin 100000000000000000020 \<noteq> Fin 100000000000000000010"
  by (simp add: bigCalls_result emptyDb_no_wallet)


subsection \<open>The transaction log\<close>

text \<open>
  C7. The transaction log is append-only and its rows are immutable: after any sequence of
  service calls the table of transactions begins with the table as it was before, row for
  row; no call updates or deletes an existing row.
\<close>

theorem transactions_append_only:
  "prefix (treasuryWalletTransactions d) (treasuryWalletTransactions (run cs d))"
proof (induction cs arbitrary: d)
  case Nil
  show ?case by simp
next
  case (Cons ec cs)
  obtain e c where ec: "ec = (e, c)" by (cases ec)
  have "prefix (treasuryWalletTransactions d) (treasuryWalletTransactions (exec e c d))"
    by (rule exec_transactions_prefix)
  also have "prefix \<dots> (treasuryWalletTransactions (run cs (exec e c d)))"
    by (rule Cons.IH)
  finally show ?case by (simp add: ec)
qed


subsection \<open>One wallet for each admin\<close>

text \<open>
  C8. There is at most one treasury wallet row per admin: \<open>createOrGetTreasuryWallet\<close>
  returns the existing wallet, and leaves the database alone, when one exists; it inserts
  one new row for the admin when none exists; and if no two wallet rows share an
  \<open>adminId\<close>, then no sequence of service calls, run one after the other, produces two
  rows that do.
\<close>

theorem one_wallet_per_admin:
  "(\<forall>w. getTreasuryWallet d aid = Some w \<longrightarrow> createOrGetTreasuryWallet e aid d = (w, d)) \<and>
   (getTreasuryWallet d aid = None \<longrightarrow>
      adminId (fst (createOrGetTreasuryWallet e aid d)) = aid \<and>
      treasuryWallets (snd (createOrGetTreasuryWallet e aid d)) =
        treasuryWallets d @ [fst (createOrGetTreasuryWallet e aid d)]) \<and>
   (distinct (map adminId (treasuryWallets d)) \<longrightarrow>
      distinct (map adminId (treasuryWallets (run cs d))))"
  by (simp add: createOrGet_existing createOrGet_missing insertWallet_def distinct_run)

text \<open>From the empty database and from the database of the example.\<close>

theorem one_wallet_per_admin_witness:
  "getTreasuryWallet emptyDb ''admin'' = None \<and>
   treasuryWallets (snd (createOrGetTreasuryWallet exEnv ''admin'' emptyDb)) =
     [newWallet exEnv ''admin''] \<and>
   getTreasuryWallet exDb ''admin'' = Some exWallet \<and>
   createOrGetTreasuryWallet exEnv ''admin'' exDb = (exWallet, exDb) \<and>
   distinct (map adminId (treasuryWallets emptyDb)) \<and>
   distinct (map adminId (treasuryWallets (run exCalls emptyDb)))"
proof -
  have e: "treasuryWallets emptyDb = []"
    by (simp add: emptyDb_def)
  from one_wallet_per_admin [of emptyDb "''admin''" exEnv exCalls]
    one_wallet_per_admin [of exDb "''admin''" exEnv "[]"]
    emptyDb_no_wallet [of "''admin''"] e exDb_wallet
  show ?thesis by (simp add: createOrGet_missing)
qed


subsection \<open>The summary\<close>

text \<open>
  C9. \<open>getTreasuryWalletSummary\<close> returns null exactly when the admin has no treasury
  wallet; otherwise it returns the wallet's balance, \<open>totalDeposited\<close>, \<open>totalUsed\<close>,
  \<open>totalEarned\<close> and status unchanged, together with \<open>netPnL\<close>, the decimal difference
  of \<open>totalEarned\<close> and \<open>totalUsed\<close>: for finite totals the exact difference rounded to
  20 significant digits.
\<close>

theorem summary_of_wallet:
  "(getTreasuryWalletSummary d aid = None \<longleftrightarrow> getTreasuryWallet d aid = None) \<and>
   (\<forall>w. getTreasuryWallet d aid = Some w \<longrightarrow>
      getTreasuryWalletSummary d aid =
        Some \<lparr>sumBalance = balance w, sumTotalDeposited = totalDeposited w,
              sumTotalUsed = totalUsed w, sumTotalEarned = totalEarned w,
              netPnL = minusD (totalEarned w) (totalUsed w), sumStatus = status w\<rparr> \<and>
      (\<forall>er u. toRat (totalEarned w) = Some er \<longrightarrow> toRat (totalUsed w) = Some u \<longrightarrow>
         map_option toRat (map_option netPnL (getTreasuryWalletSummary d aid)) =
           Some (Some (finalise precision (er - u)))))"
  by (simp add: getTreasuryWalletSummary_def toRat_minusD split: option.splits)

text \<open>
  A wallet with 5 earned and 30 used has the net result -25; an admin without a wallet has
  no summary.
\<close>

theorem summary_of_wallet_witness:
  "getTreasuryWallet usedDb ''admin'' = Some usedWallet \<and>
   toRat (totalEarned usedWallet) = Some 5 \<and> toRat (totalUsed usedWallet) = Some 30 \<and>
   getTreasuryWalletSummary usedDb ''admin'' =
     Some \<lparr>sumBalance = Fin 75, sumTotalDeposited = Fin 100, sumTotalUsed = Fin 30,
           sumTotalEarned = Fin 5, netPnL = Fin (- 25), sumStatus = ''active''\<rparr> \<and>
   map_option toRat (map_option netPnL (getTreasuryWalletSummary usedDb ''admin'')) =
     Some (Some (- 25)) \<and>
   Fin (- 25) \<noteq> Fin 5 \<and> Fin (- 25) \<noteq> Fin 30 \<and>
   getTreasuryWallet usedDb ''nobody'' = None \<and>
   getTreasuryWalletSummary usedDb ''nobody'' = None"
proof -
  have h: "getTreasuryWallet usedDb ''admin'' = Some usedWallet"
    by (simp add: getTreasuryWallet_def usedDb_def usedWallet_def)
  have n: "getTreasuryWallet usedDb ''nobody'' = None"
    by (simp add: getTreasuryWallet_def usedDb_def usedWallet_def)
  have f: "balance usedWallet = Fin 75" "totalDeposited usedWallet = Fin 100"
    "totalUsed usedWallet = Fin 30" "totalEarned usedWallet = Fin 5"
    "status usedWallet = ''active''"
    by (simp_all add: usedWallet_def)
  from summary_of_wallet [of usedDb "''admin''"] summary_of_wallet [of usedDb "''nobody''"]
    h n f
  show ?thesis by simp
qed

text \<open>
  With 1234567.89 earned and 3.3000000000000003 used, \<open>netPnL\<close> is 1234564.59, which is
  not the exact difference 1234564.5899999999999997.
\<close>

theorem summary_of_wallet_counterexample:
  "toRat (totalEarned fineWallet) = Some (123456789 / 100) \<and>
   toRat (totalUsed fineWallet) = Some (33000000000000003 / 10000000000000000) \<and>
   map_option toRat (map_option netPnL (getTreasuryWalletSummary fineDb ''admin'')) =
     Some (Some (123456459 / 100)) \<and>
   (123456459 / 100 :: rat) \<noteq> 123456789 / 100 - 33000000000000003 / 10000000000000000"
  by (simp add: getTreasuryWalletSummary_def fineDb_wallet fineWallet_totals fine_minus
      fine_a fine_b del: minusD_Fin)


subsection \<open>Interleaved deposits\<close>

lemma advance_thrice:
  "advance (fst (advance (fst (advance (Started r) d)) (snd (advance (Started r) d))))
           (snd (advance (fst (advance (Started r) d)) (snd (advance (Started r) d)))) =
     (Finished (fst (perform r d)), snd (perform r d))"
proof (cases r)
  case (DepositRequest e aid amount ref)
  then show ?thesis
    by (simp add: depositToTreasuryWallet_def depositApply_def Let_def split: prod.splits)
next
  case (DebitRequest e aid amount descr ch)
  then show ?thesis
    by (simp add: debitTreasuryWallet_def debitApply_def Let_def split: option.splits)
next
  case (CreditRequest e aid amount descr ch m)
  then show ?thesis
    by (simp add: creditTreasuryWallet_def creditApply_def Let_def split: option.splits)
qed

lemma runSchedule_alone:
  "runSchedule [0, 0, 0] ([Started r], d) = ([Finished (fst (perform r d))], snd (perform r d))"
  using advance_thrice [of r d] by (simp add: case_prod_beta)

lemma runSchedule_lost_update:
  assumes "getTreasuryWallet d aid = Some w"
  shows "runSchedule [0, 1, 0, 0, 1, 1]
             ([Started (DepositRequest eA aid amountA refA),
               Started (DepositRequest eB aid amountB refB)], d) =
           ([Finished (Inr (plusD (balance w) amountA)),
             Finished (Inr (plusD (balance w) amountB))],
            snd (depositApply eB aid amountB refB w (snd (depositApply eA aid amountA refA w d))))"
  using assms by (simp add: createOrGet_existing depositApply_def Let_def)

text \<open>
  C10. Each ledger operation is a sequential read-modify-write that is not atomic: run on
  its own, an operation is its read of the wallet followed by a separate update of the
  wallet row and a separate insert of the transaction row, three steps with nothing that
  makes them one. When two deposits to the same wallet both read before either writes,
  both return successfully and both log a transaction with the same \<open>balanceBefore\<close>,
  but the wallet ends with the balance and \<open>totalDeposited\<close> of the second deposit
  alone: the first update is lost. Run one after the other, the two deposits add up.
\<close>

theorem interleaved_deposits_lose_update:
  assumes "getTreasuryWallet d aid = Some w"
  shows "runSchedule [0, 0, 0] ([Started r], d) =
           ([Finished (fst (perform r d))], snd (perform r d)) \<and>
         fst (runSchedule [0, 1, 0, 0, 1, 1]
               ([Started (DepositRequest eA aid amountA refA),
                 Started (DepositRequest eB aid amountB refB)], d)) =
           [Finished (Inr (plusD (balance w) amountA)),
            Finished (Inr (plusD (balance w) amountB))] \<and>
         map_option balance
           (getTreasuryWallet
             (snd (runSchedule [0, 1, 0, 0, 1, 1]
               ([Started (DepositRequest eA aid amountA refA),
                 Started (DepositRequest eB aid amountB refB)], d))) aid) =
           Some (plusD (balance w) amountB) \<and>
         map_option totalDeposited
           (getTreasuryWallet
             (snd (runSchedule [0, 1, 0, 0, 1, 1]
               ([Started (DepositRequest eA aid amountA refA),
                 Started (DepositRequest eB aid amountB refB)], d))) aid) =
           Some (plusD (totalDeposited w) amountB) \<and>
         map balanceBefore
           (drop (length (treasuryWalletTransactions d))
             (treasuryWalletTransactions
               (snd (runSchedule [0, 1, 0, 0, 1, 1]
                 ([Started (DepositRequest eA aid amountA refA),
                   Started (DepositRequest eB aid amountB refB)], d))))) =
           [balance w, balance w] \<and>
         map_option balance
           (getTreasuryWallet
             (snd (perform (DepositRequest eB aid amountB refB)
               (snd (perform (DepositRequest eA aid amountA refA) d)))) aid) =
           Some (plusD (plusD (balance w) amountA) amountB)"
proof -
  obtain rA d3 where a: "depositApply eA aid amountA refA w d = (rA, d3)"
    by (cases "depositApply eA aid amountA refA w d")
  obtain rB d4 where b: "depositApply eB aid amountB refB w d3 = (rB, d4)"
    by (cases "depositApply eB aid amountB refB w d3")
  have w3: "getTreasuryWallet d3 aid =
      Some (w\<lparr>balance := plusD (balance w) amountA,
              totalDeposited := plusD (totalDeposited w) amountA, updatedAt := now eA\<rparr>)"
    using depositApply_wallet [of eA aid amountA refA w d aid] a assms by simp
  have w4: "getTreasuryWallet d4 aid =
      Some (w\<lparr>balance := plusD (balance w) amountB,
              totalDeposited := plusD (totalDeposited w) amountB, updatedAt := now eB\<rparr>)"
    using depositApply_wallet [of eB aid amountB refB w d3 aid] b w3 by simp
  have t4: "map balanceBefore (drop (length (treasuryWalletTransactions d))
      (treasuryWalletTransactions d4)) = [balance w, balance w]"
    using depositApply_transactions [of eB aid amountB refB w d3] b
      depositApply_transactions [of eA aid amountA refA w d] a by simp
  have il: "runSchedule [0, 1, 0, 0, 1, 1]
      ([Started (DepositRequest eA aid amountA refA),
        Started (DepositRequest eB aid amountB refB)], d) =
      ([Finished (Inr (plusD (balance w) amountA)),
        Finished (Inr (plusD (balance w) amountB))], d4)"
    using runSchedule_lost_update [OF assms, of eA amountA refA eB amountB refB] a b by simp
  have seq1: "depositToTreasuryWallet eA aid amountA refA d = (rA, d3)"
    using assms a by (simp add: deposit_eval)
  have seq2: "map_option balance
      (getTreasuryWallet (snd (depositToTreasuryWallet eB aid amountB refB d3)) aid) =
        Some (plusD (plusD (balance w) amountA) amountB)"
    by (simp add: deposit_eval [OF w3] depositApply_wallet w3)
  show ?thesis
    unfolding il by (simp add: runSchedule_alone w4 t4 seq1 seq2 del: runSchedule.simps)
qed

text \<open>
  Deposits of 50 and of 30 into a wallet holding 100: interleaved they leave 130, one
  after the other 180.
\<close>

theorem interleaved_deposits_lose_update_witness:
  "getTreasuryWallet exDb ''admin'' = Some exWallet \<and>
   fst (runSchedule [0, 1, 0, 0, 1, 1]
         ([Started (DepositRequest exEnv ''admin'' (Fin 50) ''ref-a''),
           Started (DepositRequest exEnv ''admin'' (Fin 30) ''ref-b'')], exDb)) =
     [Finished (Inr (Fin 150)), Finished (Inr (Fin 130))] \<and>
   map_option balance
     (getTreasuryWallet
       (snd (runSchedule [0, 1, 0, 0, 1, 1]
         ([Started (DepositRequest exEnv ''admin'' (Fin 50) ''ref-a''),
           Started (DepositRequest exEnv ''admin'' (Fin 30) ''ref-b'')], exDb))) ''admin'') =
     Some (Fin 130) \<and>
   map_option balance
     (getTreasuryWallet
       (snd (perform (DepositRequest exEnv ''admin'' (Fin 30) ''ref-b'')
         (snd (perform (DepositRequest exEnv ''admin'' (Fin 50) ''ref-a'') exDb)))) ''admin'') =
     Some (Fin 180)"
  using interleaved_deposits_lose_update [OF exDb_wallet, where eA = exEnv and eB = exEnv
      and amountA = "Fin 50" and refA = "''ref-a''" and amountB = "Fin 30" and refB = "''ref-b''"]
    exDb_wallet
  by (simp add: exWallet_balance del: runSchedule.simps perform.simps)

end
